theory Spec2Isabelle
  imports Main "HOL-Library.AList"
begin

section \<open>JavaScript values and objects\<close>

text \<open>
  The store adapter and the hooks handle untyped JavaScript objects: \<^verbatim>\<open>Object.entries\<close>,
  spread and rest patterns work on whatever own keys an object has. An object is an
  association list of its own enumerable entries, in the order \<^verbatim>\<open>Object.entries\<close>
  lists them; a JavaScript object has each key once, which is \<open>wf_obj\<close>. A key that is
  present with the value \<^verbatim>\<open>undefined\<close> is an entry \<open>(k, JUndefined)\<close>; a missing key has
  no entry. Numbers are restricted to integers.
\<close>

datatype jsval =
    JUndefined
  | JNull
  | JBool bool
  | JNum int
  | JStr string
  | JTimestamp nat
  | JArr "jsval list"
  | JObj "(string \<times> jsval) list"

type_synonym obj = "(string \<times> jsval) list"

definition wf_obj :: "obj \<Rightarrow> bool" where
  "wf_obj data = distinct (map fst data)"

text \<open>Property read \<^verbatim>\<open>o.k\<close>: a missing key reads as \<^verbatim>\<open>undefined\<close>.\<close>

definition obj_get :: "obj \<Rightarrow> string \<Rightarrow> jsval" where
  "obj_get data k = (case map_of data k of None \<Rightarrow> JUndefined | Some v \<Rightarrow> v)"

text \<open>JavaScript truthiness, as used by \<^verbatim>\<open>if (x)\<close>, \<^verbatim>\<open>&&\<close> and \<^verbatim>\<open>||\<close>.\<close>

fun truthy :: "jsval \<Rightarrow> bool" where
  "truthy JUndefined = False"
| "truthy JNull = False"
| "truthy (JBool b) = b"
| "truthy (JNum n) = (n \<noteq> 0)"
| "truthy (JStr s) = (s \<noteq> [])"
| "truthy (JTimestamp t) = True"
| "truthy (JArr xs) = True"
| "truthy (JObj kvs) = True"

text \<open>A thrown \<^verbatim>\<open>Error\<close>, with its \<^verbatim>\<open>message\<close>. A call that may throw returns
  \<open>Inl\<close> of the error or \<open>Inr\<close> of its value.\<close>

datatype js_error = JsError (message: string)

text \<open>The arguments of a \<^verbatim>\<open>console.warn\<close> or \<^verbatim>\<open>console.error\<close> call.\<close>

datatype console_arg = CStr string | CErr js_error

section \<open>The boundary: Firestore SDK, fetch, console\<close>

text \<open>
  Everything outside the repository is an oracle that answers a call from the history of
  the calls made so far; the history is the state that is threaded through the program,
  and it records each call with its answer, in order.
\<close>

text \<open>\<^verbatim>\<open>interface SignUpResult\<close> of services/auth.ts.\<close>

record SignUpResult =
  idToken :: string
  email :: string
  refreshToken :: string
  expiresIn :: string
  localId :: string

text \<open>What the code reads of a \<^verbatim>\<open>fetch\<close> response: \<^verbatim>\<open>res.ok\<close>, \<^verbatim>\<open>res.status\<close> (as it
  prints in a template string), \<^verbatim>\<open>await res.text()\<close> and \<^verbatim>\<open>await res.json() as SignUpResult\<close>,
  which throws on a body that does not parse.\<close>

record http_response =
  res_ok :: bool
  res_status :: string
  res_text :: string
  res_json :: "js_error + SignUpResult"

datatype snapshot_event =
    SnapshotNext "(string \<times> obj) list"
  | SnapshotError js_error

datatype query_constraint =
    Where_eq string jsval
  | OrderBy string string

datatype sdk_event =
    TimestampNow nat
  | AddDoc string obj "js_error + string"
  | UpdateDoc string string obj "js_error + unit"
  | DeleteDoc string string "js_error + unit"
  | OnSnapshot string "query_constraint list" "js_error + unit"
  | Fetch string obj "js_error + http_response"
  | ConsoleError "console_arg list"

type_synonym history = "sdk_event list"

record sdk_env =
  firebaseApiKey :: string
  timestamp_now :: "history \<Rightarrow> nat"
  addDoc :: "history \<Rightarrow> string \<Rightarrow> obj \<Rightarrow> js_error + string"
  updateDoc :: "history \<Rightarrow> string \<Rightarrow> string \<Rightarrow> obj \<Rightarrow> js_error + unit"
  deleteDoc :: "history \<Rightarrow> string \<Rightarrow> string \<Rightarrow> js_error + unit"
  onSnapshot :: "history \<Rightarrow> string \<Rightarrow> query_constraint list \<Rightarrow> js_error + unit"
  fetch :: "history \<Rightarrow> string \<Rightarrow> obj \<Rightarrow> js_error + http_response"

section \<open>FirestoreService (services/firestore.ts)\<close>

text \<open>
  The assignment \<^verbatim>\<open>payload[k] = v\<close> on an object that started as \<^verbatim>\<open>{}\<close>. It replaces the
  value of an existing own key in place and appends a new key, which is \<open>AList.update\<close>,
  for every key but one: for \<^verbatim>\<open>__proto__\<close> the assignment reaches the accessor that
  \<^verbatim>\<open>Object.prototype\<close> has under that name, and no own property is created (the accessor
  changes the prototype when the value is an object or \<^verbatim>\<open>null\<close>; an object here is its own
  entries, so that is not recorded).
\<close>

definition assign_prop :: "string \<Rightarrow> jsval \<Rightarrow> obj \<Rightarrow> obj" where
  "assign_prop k v payload = (if k = ''__proto__'' then payload else AList.update k v payload)"

text \<open>
  \<^verbatim>\<open>Object.entries(data).forEach(([k, v]) => { if (v !== undefined) payload[k] = v; })\<close>
  starting from the empty payload.
\<close>

definition strip_undefined :: "obj \<Rightarrow> obj" where
  "strip_undefined data =
     fold (\<lambda>(k, v) payload. if v \<noteq> JUndefined then assign_prop k v payload else payload)
       data []"

text \<open>\<^verbatim>\<open>FirestoreService.add\<close>: strip, stamp \<^verbatim>\<open>createdAt\<close> and \<^verbatim>\<open>updatedAt\<close> (two readings
  of the clock), \<^verbatim>\<open>addDoc\<close>; the id of the new document is returned, an error of
  \<^verbatim>\<open>addDoc\<close> propagates.\<close>

definition FirestoreService_add ::
  "sdk_env \<Rightarrow> string \<Rightarrow> obj \<Rightarrow> history \<Rightarrow> (js_error + string) \<times> history" where
  "FirestoreService_add E coll data h =
     (let payload0 = strip_undefined data;
          t1 = timestamp_now E h;
          h1 = h @ [TimestampNow t1];
          payload1 = AList.update ''createdAt'' (JTimestamp t1) payload0;
          t2 = timestamp_now E h1;
          h2 = h1 @ [TimestampNow t2];
          payload = AList.update ''updatedAt'' (JTimestamp t2) payload1;
          r = addDoc E h2 coll payload
      in (r, h2 @ [AddDoc coll payload r]))"

text \<open>\<^verbatim>\<open>FirestoreService.update\<close>: strip, stamp \<^verbatim>\<open>updatedAt\<close>, \<^verbatim>\<open>updateDoc\<close>.\<close>

definition FirestoreService_update ::
  "sdk_env \<Rightarrow> string \<Rightarrow> string \<Rightarrow> obj \<Rightarrow> history \<Rightarrow> (js_error + unit) \<times> history" where
  "FirestoreService_update E coll docId data h =
     (let payload0 = strip_undefined data;
          t = timestamp_now E h;
          h1 = h @ [TimestampNow t];
          payload = AList.update ''updatedAt'' (JTimestamp t) payload0;
          r = updateDoc E h1 coll docId payload
      in (r, h1 @ [UpdateDoc coll docId payload r]))"

text \<open>\<^verbatim>\<open>FirestoreService.delete\<close>.\<close>

definition FirestoreService_delete ::
  "sdk_env \<Rightarrow> string \<Rightarrow> string \<Rightarrow> history \<Rightarrow> (js_error + unit) \<times> history" where
  "FirestoreService_delete E coll docId h =
     (let r = deleteDoc E h coll docId in (r, h @ [DeleteDoc coll docId r]))"

text \<open>
  \<^verbatim>\<open>FirestoreService.onSnapshot(callback, constraints)\<close> registers two listeners with the
  SDK. The registration itself is \<open>FirestoreService_onSnapshot\<close>; what the two listeners do
  when the channel later delivers is \<open>FirestoreService_onSnapshot_listener\<close>: a snapshot is
  mapped to entities \<^verbatim>\<open>{ id: doc.id, ...doc.data() }\<close> and handed to the consumer's callback,
  an error is written to the console and the callback is not called. The consumer's state
  is \<open>s\<close>; the callback is a state transformer.
\<close>

definition doc_entity :: "string \<times> obj \<Rightarrow> obj" where
  "doc_entity d = fold (\<lambda>(k, v) e. AList.update k v e) (snd d) [(''id'', JStr (fst d))]"

definition FirestoreService_onSnapshot ::
  "sdk_env \<Rightarrow> string \<Rightarrow> query_constraint list \<Rightarrow> history \<Rightarrow> (js_error + unit) \<times> history" where
  "FirestoreService_onSnapshot E coll constraints h =
     (let r = onSnapshot E h coll constraints in (r, h @ [OnSnapshot coll constraints r]))"

definition FirestoreService_onSnapshot_listener ::
  "(obj list \<Rightarrow> 's \<Rightarrow> 's) \<Rightarrow> snapshot_event \<Rightarrow> 's \<times> history \<Rightarrow> 's \<times> history" where
  "FirestoreService_onSnapshot_listener callback ev sh =
     (case ev of
        SnapshotNext docs \<Rightarrow> (callback (map doc_entity docs) (fst sh), snd sh)
      | SnapshotError err \<Rightarrow>
          (fst sh, snd sh @ [ConsoleError [CStr ''Firestore onSnapshot error:'', CErr err]]))"

section \<open>createUserWithPassword (services/auth.ts)\<close>

definition signUpUrl :: "sdk_env \<Rightarrow> string" where
  "signUpUrl E = ''https://identitytoolkit.googleapis.com/v1/accounts:signUp?key='' @ firebaseApiKey E"

definition updateUrl :: "sdk_env \<Rightarrow> string" where
  "updateUrl E = ''https://identitytoolkit.googleapis.com/v1/accounts:update?key='' @ firebaseApiKey E"

text \<open>The arguments come from an untyped object, so they are JavaScript values. The body
  recorded with a \<open>Fetch\<close> is the object handed to \<^verbatim>\<open>JSON.stringify\<close>.\<close>

definition createUserWithPassword ::
  "sdk_env \<Rightarrow> jsval \<Rightarrow> jsval \<Rightarrow> jsval \<Rightarrow> history \<Rightarrow> (js_error + SignUpResult) \<times> history" where
  "createUserWithPassword E email' password displayName h =
     (let body = [(''email'', email'), (''password'', password), (''returnSecureToken'', JBool True)];
          res = fetch E h (signUpUrl E) body;
          h1 = h @ [Fetch (signUpUrl E) body res]
      in case res of
           Inl err \<Rightarrow> (Inl err, h1)
         | Inr resp \<Rightarrow>
             if \<not> res_ok resp then
               (Inl (JsError (''Failed to create auth user: '' @ res_status resp @ '' '' @ res_text resp)), h1)
             else
               (case res_json resp of
                  Inl err \<Rightarrow> (Inl err, h1)
                | Inr data' \<Rightarrow>
                    if truthy displayName then
                      (let body2 = [(''idToken'', JStr (idToken data')), (''displayName'', displayName),
                                    (''returnSecureToken'', JBool False)];
                           res2 = fetch E h1 (updateUrl E) body2;
                           h2 = h1 @ [Fetch (updateUrl E) body2 res2]
                       in case res2 of
                            Inl err \<Rightarrow> (Inl err, h2)
                          | Inr resp2 \<Rightarrow> (Inr data', h2))
                    else (Inr data', h1)))"

section \<open>The hooks (hooks/useFirestore.ts)\<close>

text \<open>The three \<^verbatim>\<open>useState\<close> cells of \<^verbatim>\<open>useFirestoreCollection\<close>. The service argument of
  the hook is a \<^verbatim>\<open>FirestoreService\<close> instance, which is its collection name.\<close>

record cache =
  data :: "obj list"
  loading :: bool
  error :: "string option"

definition cache_init :: cache where
  "cache_init = \<lparr>data = [], loading = True, error = None\<rparr>"

text \<open>The effect that subscribes: an exception thrown while the listener is set up is
  caught, logged and stored in \<^verbatim>\<open>error\<close>.\<close>

definition useFirestoreCollection_effect ::
  "sdk_env \<Rightarrow> string \<Rightarrow> cache \<times> history \<Rightarrow> cache \<times> history" where
  "useFirestoreCollection_effect E coll ch =
     (case FirestoreService_onSnapshot E coll [] (snd ch) of
        (Inr u, h1) \<Rightarrow> (fst ch, h1)
      | (Inl err, h1) \<Rightarrow>
          ((fst ch)\<lparr>error := Some (message err), loading := False\<rparr>,
           h1 @ [ConsoleError [CStr ''Error setting up Firestore listener:'', CErr err]]))"

text \<open>The callback the hook hands to \<^verbatim>\<open>service.onSnapshot\<close>, and the whole listener.\<close>

definition useFirestoreCollection_callback :: "obj list \<Rightarrow> cache \<Rightarrow> cache" where
  "useFirestoreCollection_callback newData c = c\<lparr>data := newData, loading := False\<rparr>"

definition useFirestoreCollection_listener ::
  "snapshot_event \<Rightarrow> cache \<times> history \<Rightarrow> cache \<times> history" where
  "useFirestoreCollection_listener ev ch =
     FirestoreService_onSnapshot_listener useFirestoreCollection_callback ev ch"

text \<open>\<^verbatim>\<open>add\<close>, \<^verbatim>\<open>update\<close>, \<^verbatim>\<open>remove\<close>: delegate, and on an error store its message and
  rethrow.\<close>

definition add ::
  "sdk_env \<Rightarrow> string \<Rightarrow> obj \<Rightarrow> cache \<times> history \<Rightarrow> (js_error + string) \<times> cache \<times> history" where
  "add E coll item ch =
     (case FirestoreService_add E coll item (snd ch) of
        (Inr docId, h1) \<Rightarrow> (Inr docId, fst ch, h1)
      | (Inl err, h1) \<Rightarrow> (Inl err, (fst ch)\<lparr>error := Some (message err)\<rparr>, h1))"

definition update ::
  "sdk_env \<Rightarrow> string \<Rightarrow> string \<Rightarrow> obj \<Rightarrow> cache \<times> history \<Rightarrow> (js_error + unit) \<times> cache \<times> history" where
  "update E coll docId item ch =
     (case FirestoreService_update E coll docId item (snd ch) of
        (Inr u, h1) \<Rightarrow> (Inr u, fst ch, h1)
      | (Inl err, h1) \<Rightarrow> (Inl err, (fst ch)\<lparr>error := Some (message err)\<rparr>, h1))"

definition remove ::
  "sdk_env \<Rightarrow> string \<Rightarrow> string \<Rightarrow> cache \<times> history \<Rightarrow> (js_error + unit) \<times> cache \<times> history" where
  "remove E coll docId ch =
     (case FirestoreService_delete E coll docId (snd ch) of
        (Inr u, h1) \<Rightarrow> (Inr u, fst ch, h1)
      | (Inl err, h1) \<Rightarrow> (Inl err, (fst ch)\<lparr>error := Some (message err)\<rparr>, h1))"

text \<open>
  \<^verbatim>\<open>useUsers().createUser\<close>. With a truthy \<^verbatim>\<open>password\<close> the identity account is created
  first; \<^verbatim>\<open>const { password, ...rest } = userData\<close> is the object without that key and
  \<^verbatim>\<open>{ ...rest, authUid: localId }\<close> sets \<^verbatim>\<open>authUid\<close> on it. Otherwise the object is added as
  it is. \<^verbatim>\<open>catch (err) { throw err; }\<close> rethrows.
\<close>

definition createUser ::
  "sdk_env \<Rightarrow> obj \<Rightarrow> cache \<times> history \<Rightarrow> (js_error + string) \<times> cache \<times> history" where
  "createUser E userData ch =
     (if truthy (obj_get userData ''password'') then
        (case createUserWithPassword E (obj_get userData ''email'') (obj_get userData ''password'')
                (obj_get userData ''name'') (snd ch) of
           (Inl err, h1) \<Rightarrow> (Inl err, fst ch, h1)
         | (Inr signUp, h1) \<Rightarrow>
             (let rest = AList.delete ''password'' userData
              in add E ''users'' (AList.update ''authUid'' (JStr (localId signUp)) rest) (fst ch, h1)))
      else add E ''users'' userData ch)"

text \<open>The three \<^verbatim>\<open>useState\<close> cells of \<^verbatim>\<open>useNotifications\<close>.\<close>

record notifications_state =
  notifications :: "obj list"
  notifications_loading :: bool
  notifications_error :: "string option"

text \<open>The effect of \<^verbatim>\<open>useNotifications(userId)\<close>: without a user the list is emptied, with one
  the hook subscribes to that user's notifications, newest first. \<^verbatim>\<open>userId\<close> is
  \<^verbatim>\<open>string | undefined\<close>.\<close>

definition useNotifications_effect ::
  "sdk_env \<Rightarrow> string option \<Rightarrow> notifications_state \<times> history \<Rightarrow>
   (js_error + unit) \<times> notifications_state \<times> history" where
  "useNotifications_effect E userId nh =
     (case userId of
        None \<Rightarrow> (Inr (), (fst nh)\<lparr>notifications := [], notifications_loading := False\<rparr>, snd nh)
      | Some uid \<Rightarrow>
          if uid = [] then
            (Inr (), (fst nh)\<lparr>notifications := [], notifications_loading := False\<rparr>, snd nh)
          else
            (case FirestoreService_onSnapshot E ''notifications''
                    [Where_eq ''userId'' (JStr uid), OrderBy ''timestamp'' ''desc''] (snd nh) of
               (r, h1) \<Rightarrow> (r, (fst nh)\<lparr>notifications_loading := True\<rparr>, h1)))"

definition useNotifications_callback :: "obj list \<Rightarrow> notifications_state \<Rightarrow> notifications_state" where
  "useNotifications_callback userNotifications n =
     n\<lparr>notifications := userNotifications, notifications_loading := False\<rparr>"

definition useNotifications_listener ::
  "snapshot_event \<Rightarrow> notifications_state \<times> history \<Rightarrow> notifications_state \<times> history" where
  "useNotifications_listener ev nh =
     FirestoreService_onSnapshot_listener useNotifications_callback ev nh"

definition useNotifications_createNotification ::
  "sdk_env \<Rightarrow> obj \<Rightarrow> notifications_state \<times> history \<Rightarrow>
   (js_error + string) \<times> notifications_state \<times> history" where
  "useNotifications_createNotification E notificationData nh =
     (case FirestoreService_add E ''notifications'' notificationData (snd nh) of
        (Inr docId, h1) \<Rightarrow> (Inr docId, fst nh, h1)
      | (Inl err, h1) \<Rightarrow> (Inl err, (fst nh)\<lparr>notifications_error := Some (message err)\<rparr>, h1))"

text \<open>\<^verbatim>\<open>markAsRead\<close>: after the remote update has succeeded,
  \<^verbatim>\<open>setNotifications(prev => prev.map(n => n.id === notificationId ? { ...n, read: true } : n))\<close>.\<close>

definition markAsRead ::
  "sdk_env \<Rightarrow> string \<Rightarrow> notifications_state \<times> history \<Rightarrow>
   (js_error + unit) \<times> notifications_state \<times> history" where
  "markAsRead E notificationId nh =
     (case FirestoreService_update E ''notifications'' notificationId [(''read'', JBool True)] (snd nh) of
        (Inr u, h1) \<Rightarrow>
          (Inr u,
           (fst nh)\<lparr>notifications :=
              map (\<lambda>n. if obj_get n ''id'' = JStr notificationId
                        then AList.update ''read'' (JBool True) n else n)
                (notifications (fst nh))\<rparr>,
           h1)
      | (Inl err, h1) \<Rightarrow> (Inl err, (fst nh)\<lparr>notifications_error := Some (message err)\<rparr>, h1))"

section \<open>The data model (types.ts)\<close>

text \<open>
  Modelled from the spec: the \<^verbatim>\<open>UserRole\<close> enum that App.tsx imports from types.ts. The
  copy of the declarations under src/ has the members \<^verbatim>\<open>TECHNICIAN\<close> and \<^verbatim>\<open>MANAGER\<close>
  only, while App.tsx uses \<^verbatim>\<open>UserRole.COORDINATOR\<close>; the spec's data model gives the three
  roles. The other declarations are the interfaces of that file. An optional field
  \<^verbatim>\<open>f?: T\<close> is a \<open>T option\<close>, \<open>None\<close> when it is \<^verbatim>\<open>undefined\<close>. \<^verbatim>\<open>Unit.managerId\<close> is
  declared \<^verbatim>\<open>string\<close>, but units are cast from stored documents and the code tests the
  field for truthiness, so it is optional here as well.
\<close>

datatype UserRole = TECHNICIAN | MANAGER | COORDINATOR

text \<open>\<^verbatim>\<open>Omit<User, 'id'>\<close> and \<^verbatim>\<open>User\<close>.\<close>

record UserData =
  u_name :: string
  u_email :: string
  u_role :: UserRole
  u_unitId :: "string option"
  u_managerId :: "string option"
  u_active :: "bool option"
  u_authUid :: "string option"

record User = UserData +
  u_id :: string

record Unit =
  unit_id :: string
  unit_name :: string
  unit_managerId :: "string option"
  unit_active :: "bool option"

record ChecklistItemTemplate =
  item_id :: string
  item_text :: string

record ChecklistTemplate =
  template_id :: string
  template_name :: string
  template_items :: "ChecklistItemTemplate list"

datatype ChecklistItemStatus = CONFORM | NON_CONFORM

record ChecklistItemResult =
  itemId :: string
  status :: "ChecklistItemStatus option"
  observation :: string

text \<open>\<^verbatim>\<open>Omit<CompletedChecklist, 'id' | 'completionDate' | 'hasNonConformities'>\<close> and
  \<^verbatim>\<open>Omit<CompletedChecklist, 'id'>\<close>.\<close>

record ChecklistData =
  templateId :: string
  unitId :: string
  technicianId :: string
  results :: "ChecklistItemResult list"
  validated :: "bool option"
  validatedBy :: "string option"
  validatedAt :: "string option"
  managerComment :: "string option"

record NewCompletedChecklist = ChecklistData +
  completionDate :: string
  hasNonConformities :: bool

text \<open>\<^verbatim>\<open>Omit<Notification, 'id'>\<close>.\<close>

record NotificationData =
  userId :: string
  completedChecklistId :: string
  message_text :: string
  read :: bool
  timestamp :: string

section \<open>The App component (App.tsx)\<close>

text \<open>
  App.tsx works through the functions its hooks return and through Firebase Auth. They are
  oracles again, answering from the history of the calls of this level; whatever the hooks
  do underneath, they return a value or throw. \<^verbatim>\<open>getUserByEmailAddress\<close> catches every
  error and returns \<^verbatim>\<open>null\<close>, so it has no error answer.
\<close>

datatype app_event =
    DateNow string
  | GetUserByEmailAddress string "User option"
  | CreateUserInFirestore UserData "js_error + string"
  | SubmitChecklistToFirestore NewCompletedChecklist "js_error + string"
  | CreateNotification NotificationData "js_error + string"
  | SignOut "js_error + unit"
  | ConsoleWarn "console_arg list"
  | ConsoleErr "console_arg list"

type_synonym app_history = "app_event list"

record app_env =
  date_now :: "app_history \<Rightarrow> string"
  getUserByEmailAddress :: "app_history \<Rightarrow> string \<Rightarrow> User option"
  createUserInFirestore :: "app_history \<Rightarrow> UserData \<Rightarrow> js_error + string"
  submitChecklistToFirestore :: "app_history \<Rightarrow> NewCompletedChecklist \<Rightarrow> js_error + string"
  createNotification :: "app_history \<Rightarrow> NotificationData \<Rightarrow> js_error + string"
  signOut :: "app_history \<Rightarrow> js_error + unit"

datatype View = Dashboard | Checklists | Templates | Admin | Notifications

datatype AuthStatus = Loading | Authenticated | Unauthenticated

text \<open>The \<^verbatim>\<open>useState\<close> cells of \<^verbatim>\<open>App\<close> that the two functions below write.\<close>

record app_state =
  activeView :: View
  currentUser :: "User option"
  authStatus :: AuthStatus

text \<open>What the handler reads of the \<^verbatim>\<open>FirebaseUser\<close>; both fields are \<^verbatim>\<open>string | null\<close>.\<close>

record FirebaseUser =
  fb_email :: "string option"
  fb_displayName :: "string option"

text \<open>Strings are byte sequences in UTF-8; these are the two letters outside ASCII that
  the literals of App.tsx contain.\<close>

definition a_tilde :: string where
  "a_tilde = [CHR 0xC3, CHR 0xA3]"

definition a_acute :: string where
  "a_acute = [CHR 0xC3, CHR 0xA1]"

subsection \<open>Session bootstrap: the \<^verbatim>\<open>onAuthStateChanged\<close> handler\<close>

text \<open>\<^verbatim>\<open>firebaseUser.displayName || firebaseUser.email?.split('@')[0] || 'Usuario'\<close> (with an
  acute accent on the a).\<close>

definition displayName_of :: "FirebaseUser \<Rightarrow> string \<Rightarrow> string" where
  "displayName_of fu em =
     (case fb_displayName fu of
        Some n \<Rightarrow> if n \<noteq> [] then n
                  else if takeWhile (\<lambda>c. c \<noteq> CHR ''@'') em \<noteq> [] then takeWhile (\<lambda>c. c \<noteq> CHR ''@'') em
                  else ''Usu'' @ a_acute @ ''rio''
      | None \<Rightarrow> if takeWhile (\<lambda>c. c \<noteq> CHR ''@'') em \<noteq> [] then takeWhile (\<lambda>c. c \<noteq> CHR ''@'') em
                else ''Usu'' @ a_acute @ ''rio'')"

text \<open>\<^verbatim>\<open>{ ...newUserData, id: newId }\<close>.\<close>

definition with_id :: "UserData \<Rightarrow> string \<Rightarrow> User" where
  "with_id d i =
     \<lparr>u_name = u_name d, u_email = u_email d, u_role = u_role d, u_unitId = u_unitId d,
      u_managerId = u_managerId d, u_active = u_active d, u_authUid = u_authUid d, u_id = i\<rparr>"

text \<open>\<^verbatim>\<open>await signOut(auth)\<close> inside the outer \<^verbatim>\<open>try\<close>: when it throws, the outer \<^verbatim>\<open>catch\<close>
  logs and sets the status; the statements after the call are skipped. \<open>after\<close> is what
  they do to the state.\<close>

definition signOut_then ::
  "app_env \<Rightarrow> (app_state \<Rightarrow> app_state) \<Rightarrow> app_state \<times> app_history \<Rightarrow> app_state \<times> app_history" where
  "signOut_then A after sh =
     (let r = signOut A (snd sh);
          h1 = snd sh @ [SignOut r]
      in case r of
           Inr u \<Rightarrow> (after (fst sh), h1)
         | Inl err \<Rightarrow>
             ((fst sh)\<lparr>authStatus := Unauthenticated\<rparr>,
              h1 @ [ConsoleErr [CStr ''Error fetching user:'', CErr err]]))"

text \<open>The branch for an identity without a profile (lines 64 to 91).\<close>

definition provision_profile ::
  "app_env \<Rightarrow> FirebaseUser \<Rightarrow> string \<Rightarrow> app_state \<times> app_history \<Rightarrow> app_state \<times> app_history" where
  "provision_profile A fu em sh =
     (let newUserData =
            \<lparr>u_name = displayName_of fu em, u_email = em, u_role = MANAGER, u_unitId = None,
             u_managerId = None, u_active = None, u_authUid = None\<rparr>;
          r = createUserInFirestore A (snd sh) newUserData;
          h1 = snd sh @ [CreateUserInFirestore newUserData r]
      in case r of
           Inr newId \<Rightarrow>
             (let createdUser = getUserByEmailAddress A h1 em;
                  h2 = h1 @ [GetUserByEmailAddress em createdUser]
              in case createdUser of
                   Some cu \<Rightarrow> ((fst sh)\<lparr>currentUser := Some cu, authStatus := Authenticated\<rparr>, h2)
                 | None \<Rightarrow>
                     ((fst sh)\<lparr>currentUser := Some (with_id newUserData newId),
                                authStatus := Authenticated\<rparr>, h2))
         | Inl err \<Rightarrow>
             signOut_then A (\<lambda>s. s\<lparr>authStatus := Unauthenticated\<rparr>)
               (fst sh,
                h1 @ [ConsoleErr [CStr ''Failed to create Firestore profile for authenticated user:'',
                                  CErr err]]))"

text \<open>The handler (lines 48 to 100).\<close>

definition onAuthStateChanged_handler ::
  "app_env \<Rightarrow> FirebaseUser option \<Rightarrow> app_state \<times> app_history \<Rightarrow> app_state \<times> app_history" where
  "onAuthStateChanged_handler A firebaseUser sh =
     (case firebaseUser of
        None \<Rightarrow> ((fst sh)\<lparr>currentUser := None, authStatus := Unauthenticated\<rparr>, snd sh)
      | Some fu \<Rightarrow>
          (case fb_email fu of
             None \<Rightarrow> ((fst sh)\<lparr>currentUser := None, authStatus := Unauthenticated\<rparr>, snd sh)
           | Some em \<Rightarrow>
               if em = [] then
                 ((fst sh)\<lparr>currentUser := None, authStatus := Unauthenticated\<rparr>, snd sh)
               else
                 (let appUser = getUserByEmailAddress A (snd sh) em;
                      h1 = snd sh @ [GetUserByEmailAddress em appUser]
                  in case appUser of
                       Some au \<Rightarrow>
                         if u_active au = Some False then
                           signOut_then A (\<lambda>s. s\<lparr>currentUser := None, authStatus := Unauthenticated\<rparr>)
                             (fst sh,
                              h1 @ [ConsoleWarn [CStr ''Authenticated Firebase user is deactivated in Firestore, signing out.'']])
                         else ((fst sh)\<lparr>currentUser := Some au, authStatus := Authenticated\<rparr>, h1)
                     | None \<Rightarrow> provision_profile A fu em (fst sh, h1))))"

subsection \<open>Checklist submission and the notification fanout\<close>

text \<open>\<^verbatim>\<open>${technician?.name}\<close> and its like in a template string: an absent object prints as
  \<^verbatim>\<open>undefined\<close>.\<close>

definition opt_name :: "('a \<Rightarrow> string) \<Rightarrow> 'a option \<Rightarrow> string" where
  "opt_name f x = (case x of None \<Rightarrow> ''undefined'' | Some y \<Rightarrow> f y)"

definition nonconformity_message :: "User option \<Rightarrow> Unit option \<Rightarrow> ChecklistTemplate option \<Rightarrow> string" where
  "nonconformity_message technician unit template =
     ''N'' @ a_tilde @ ''o conformidade registrada por '' @ opt_name u_name technician @
     '' na unidade '' @ opt_name unit_name unit @
     '' (Checklist: '' @ opt_name template_name template @ '').''"

definition collaborator_message :: "User \<Rightarrow> Unit option \<Rightarrow> ChecklistTemplate option \<Rightarrow> string" where
  "collaborator_message technician unit template =
     ''Seu colaborador '' @ u_name technician @ '' registrou uma n'' @ a_tilde @
     ''o conformidade na unidade '' @ opt_name unit_name unit @
     '' (Checklist: '' @ opt_name template_name template @ '').''"

text \<open>\<^verbatim>\<open>await createNotification({ userId, completedChecklistId: checklistId, message,
  read: false, timestamp: new Date().toISOString() })\<close>: the clock is read, then the hook
  is called.\<close>

definition notify ::
  "app_env \<Rightarrow> string \<Rightarrow> string \<Rightarrow> string \<Rightarrow> app_history \<Rightarrow> (js_error + string) \<times> app_history" where
  "notify A uid checklistId msg h =
     (let now = date_now A h;
          h1 = h @ [DateNow now];
          n = \<lparr>userId = uid, completedChecklistId = checklistId, message_text = msg,
               read = False, timestamp = now\<rparr>;
          r = createNotification A h1 n
      in (r, h1 @ [CreateNotification n r]))"

text \<open>\<^verbatim>\<open>unit?.managerId\<close>.\<close>

definition unit_manager_of :: "Unit option \<Rightarrow> string option" where
  "unit_manager_of unit = (case unit of None \<Rightarrow> None | Some un \<Rightarrow> unit_managerId un)"

text \<open>Lines 238 to 250: the unit manager. The result is the set \<^verbatim>\<open>notifiedManagers\<close>, or the
  error that the call threw.\<close>

definition notify_unit_manager ::
  "app_env \<Rightarrow> User option \<Rightarrow> Unit option \<Rightarrow> ChecklistTemplate option \<Rightarrow> string \<Rightarrow> app_history \<Rightarrow>
   (js_error + string set) \<times> app_history" where
  "notify_unit_manager A technician unit template checklistId h =
     (case unit_manager_of unit of
        None \<Rightarrow> (Inr {}, h)
      | Some m \<Rightarrow>
          if m = [] then (Inr {}, h)
          else
            (case notify A m checklistId (nonconformity_message technician unit template) h of
               (Inl err, h1) \<Rightarrow> (Inl err, h1)
             | (Inr nid, h1) \<Rightarrow> (Inr {m}, h1)))"

text \<open>Lines 252 to 263: the technician's manager, if different.\<close>

definition notify_technician_manager ::
  "app_env \<Rightarrow> User option \<Rightarrow> Unit option \<Rightarrow> ChecklistTemplate option \<Rightarrow> string \<Rightarrow> string set \<Rightarrow>
   app_history \<Rightarrow> (js_error + string set) \<times> app_history" where
  "notify_technician_manager A technician unit template checklistId notifiedManagers h =
     (case technician of
        None \<Rightarrow> (Inr notifiedManagers, h)
      | Some tech \<Rightarrow>
          (case u_managerId tech of
             None \<Rightarrow> (Inr notifiedManagers, h)
           | Some m \<Rightarrow>
               if m \<noteq> [] \<and> Some m \<noteq> unit_manager_of unit \<and> m \<notin> notifiedManagers then
                 (case notify A m checklistId (collaborator_message tech unit template) h of
                    (Inl err, h1) \<Rightarrow> (Inl err, h1)
                  | (Inr nid, h1) \<Rightarrow> (Inr (insert m notifiedManagers), h1))
               else (Inr notifiedManagers, h)))"

text \<open>Lines 266 to 282: the loop over the coordinators. An error of the call is caught
  and logged, and the loop goes on; the set is not extended.\<close>

fun notify_coordinators ::
  "app_env \<Rightarrow> User option \<Rightarrow> Unit option \<Rightarrow> ChecklistTemplate option \<Rightarrow> string \<Rightarrow> string set \<Rightarrow>
   User list \<Rightarrow> app_history \<Rightarrow> app_history" where
  "notify_coordinators A technician unit template checklistId notifiedManagers [] h = h"
| "notify_coordinators A technician unit template checklistId notifiedManagers (coord # coordinators) h =
     (if u_id coord \<in> notifiedManagers then
        notify_coordinators A technician unit template checklistId notifiedManagers coordinators h
      else
        (case notify A (u_id coord) checklistId (nonconformity_message technician unit template) h of
           (Inr nid, h1) \<Rightarrow>
             notify_coordinators A technician unit template checklistId notifiedManagers coordinators h1
         | (Inl err, h1) \<Rightarrow>
             notify_coordinators A technician unit template checklistId notifiedManagers coordinators
               (h1 @ [ConsoleWarn [CStr ''Falha ao notificar coordenador:'', CStr (u_id coord), CErr err]])))"

text \<open>\<^verbatim>\<open>users.filter(u => u.role === UserRole.COORDINATOR && u.active !== false)\<close>.\<close>

definition active_coordinators :: "User list \<Rightarrow> User list" where
  "active_coordinators users = filter (\<lambda>u. u_role u = COORDINATOR \<and> u_active u \<noteq> Some False) users"

text \<open>Lines 233 to 283, the body of \<^verbatim>\<open>if (hasNonConformities)\<close>: \<open>Some\<close> of the error that
  left it, or \<open>None\<close> when it ran to its end.\<close>

definition fanout ::
  "app_env \<Rightarrow> User list \<Rightarrow> Unit list \<Rightarrow> ChecklistTemplate list \<Rightarrow> ChecklistData \<Rightarrow> string \<Rightarrow>
   app_history \<Rightarrow> js_error option \<times> app_history" where
  "fanout A users units templates checklistData checklistId h =
     (let technician = find (\<lambda>u. u_id u = technicianId checklistData) users;
          unit = find (\<lambda>u. unit_id u = unitId checklistData) units;
          template = find (\<lambda>t. template_id t = templateId checklistData) templates
      in case notify_unit_manager A technician unit template checklistId h of
           (Inl err, h1) \<Rightarrow> (Some err, h1)
         | (Inr notified1, h1) \<Rightarrow>
             (case notify_technician_manager A technician unit template checklistId notified1 h1 of
                (Inl err, h2) \<Rightarrow> (Some err, h2)
              | (Inr notified2, h2) \<Rightarrow>
                  (None, notify_coordinators A technician unit template checklistId notified2
                           (active_coordinators users) h2)))"

text \<open>\<^verbatim>\<open>checklistData.results.some(r => r.status === ChecklistItemStatus.NON_CONFORM)\<close>.\<close>

definition has_non_conformities :: "ChecklistData \<Rightarrow> bool" where
  "has_non_conformities checklistData =
     list_ex (\<lambda>r. status r = Some NON_CONFORM) (results checklistData)"

text \<open>\<^verbatim>\<open>{ ...checklistData, completionDate, hasNonConformities }\<close>.\<close>

definition new_completed_checklist :: "ChecklistData \<Rightarrow> string \<Rightarrow> bool \<Rightarrow> NewCompletedChecklist" where
  "new_completed_checklist d date flag =
     \<lparr>templateId = templateId d, unitId = unitId d, technicianId = technicianId d,
      results = results d, validated = validated d, validatedBy = validatedBy d,
      validatedAt = validatedAt d, managerComment = managerComment d,
      completionDate = date, hasNonConformities = flag\<rparr>"

text \<open>\<^verbatim>\<open>submitChecklist\<close> (lines 219 to 288). \<^verbatim>\<open>users\<close>, \<^verbatim>\<open>units\<close> and \<^verbatim>\<open>templates\<close> are the
  cached snapshots the function closes over.\<close>

definition submitChecklist ::
  "app_env \<Rightarrow> User list \<Rightarrow> Unit list \<Rightarrow> ChecklistTemplate list \<Rightarrow> ChecklistData \<Rightarrow>
   app_state \<times> app_history \<Rightarrow> app_state \<times> app_history" where
  "submitChecklist A users units templates checklistData sh =
     (case currentUser (fst sh) of
        None \<Rightarrow> sh
      | Some cu \<Rightarrow>
          (let flag = has_non_conformities checklistData;
               now = date_now A (snd sh);
               h1 = snd sh @ [DateNow now];
               newCompletedChecklist = new_completed_checklist checklistData now flag;
               r = submitChecklistToFirestore A h1 newCompletedChecklist;
               h2 = h1 @ [SubmitChecklistToFirestore newCompletedChecklist r]
           in case r of
                Inl err \<Rightarrow> (fst sh, h2 @ [ConsoleErr [CStr ''Error submitting checklist:'', CErr err]])
              | Inr checklistId \<Rightarrow>
                  (case (if flag then fanout A users units templates checklistData checklistId h2
                         else (None, h2)) of
                     (Some err, h3) \<Rightarrow>
                       (fst sh, h3 @ [ConsoleErr [CStr ''Error submitting checklist:'', CErr err]])
                   | (None, h3) \<Rightarrow> ((fst sh)\<lparr>activeView := Checklists\<rparr>, h3))))"

section \<open>Observations on a history\<close>

text \<open>The calls of \<^verbatim>\<open>createNotification\<close> in a history, in order: the recipient and the
  answer. A notification was attempted for every recipient in the list and created for
  those whose call returned.\<close>

definition notification_calls :: "app_history \<Rightarrow> (string \<times> (js_error + string)) list" where
  "notification_calls h =
     concat (map (\<lambda>e. case e of CreateNotification n r \<Rightarrow> [(userId n, r)] | _ \<Rightarrow> []) h)"

definition attempted_recipients :: "app_history \<Rightarrow> string list" where
  "attempted_recipients h = map fst (notification_calls h)"

definition created_recipients :: "app_history \<Rightarrow> string list" where
  "created_recipients h = map fst (filter (\<lambda>p. \<not> isl (snd p)) (notification_calls h))"

text \<open>The checklists handed to \<^verbatim>\<open>submitChecklistToFirestore\<close>, and the calls of
  \<^verbatim>\<open>signOut\<close>.\<close>

definition submitted_checklists :: "app_history \<Rightarrow> NewCompletedChecklist list" where
  "submitted_checklists h =
     concat (map (\<lambda>e. case e of SubmitChecklistToFirestore c r \<Rightarrow> [c] | _ \<Rightarrow> []) h)"

definition signOut_calls :: "app_history \<Rightarrow> (js_error + unit) list" where
  "signOut_calls h = concat (map (\<lambda>e. case e of SignOut r \<Rightarrow> [r] | _ \<Rightarrow> []) h)"

definition aborted :: "app_history \<Rightarrow> bool" where
  "aborted h = list_ex (\<lambda>e. case e of ConsoleErr args \<Rightarrow> True | _ \<Rightarrow> False) h"

text \<open>The payloads handed to \<^verbatim>\<open>addDoc\<close> and \<^verbatim>\<open>updateDoc\<close>, with their collection.\<close>

definition outgoing_payloads :: "history \<Rightarrow> (string \<times> obj) list" where
  "outgoing_payloads h =
     concat (map (\<lambda>e. case e of AddDoc coll p r \<Rightarrow> [(coll, p)]
                              | UpdateDoc coll docId p r \<Rightarrow> [(coll, p)]
                              | _ \<Rightarrow> []) h)"

section \<open>Example inputs\<close>

text \<open>A store in which ids are their own names: technician \<open>T\<close>, a unit \<open>U\<close> managed by
  \<open>M1\<close>, coordinators, and a checklist with one item that does not conform. The hooks of
  \<open>ex_env failing\<close> succeed, except that \<^verbatim>\<open>createNotification\<close> throws for the recipients
  listed in \<open>failing\<close>.\<close>

definition ex_user :: "string \<Rightarrow> UserRole \<Rightarrow> string option \<Rightarrow> bool option \<Rightarrow> User" where
  "ex_user i r m a =
     \<lparr>u_name = i, u_email = i @ ''@example.com'', u_role = r, u_unitId = None,
      u_managerId = m, u_active = a, u_authUid = None, u_id = i\<rparr>"

definition ex_env :: "string list \<Rightarrow> app_env" where
  "ex_env failing =
     \<lparr>date_now = (\<lambda>h. ''2025-01-01T00:00:00.000Z''),
      getUserByEmailAddress = (\<lambda>h e. None),
      createUserInFirestore = (\<lambda>h d. Inr ''u1''),
      submitChecklistToFirestore = (\<lambda>h c. Inr ''cl1''),
      createNotification =
        (\<lambda>h n. if userId n \<in> set failing then Inl (JsError ''unavailable'') else Inr ''n1''),
      signOut = (\<lambda>h. Inr ())\<rparr>"

definition ex_unit :: Unit where
  "ex_unit = \<lparr>unit_id = ''U'', unit_name = ''Unit'', unit_managerId = Some ''M1'', unit_active = None\<rparr>"

definition ex_checklist :: ChecklistData where
  "ex_checklist =
     \<lparr>templateId = ''tpl'', unitId = ''U'', technicianId = ''T'',
      results = [\<lparr>itemId = ''i1'', status = Some CONFORM, observation = []\<rparr>,
                 \<lparr>itemId = ''i2'', status = Some NON_CONFORM, observation = ''leak''\<rparr>],
      validated = None, validatedBy = None, validatedAt = None, managerComment = None\<rparr>"

definition ex_state :: app_state where
  "ex_state =
     \<lparr>activeView = Dashboard, currentUser = Some (ex_user ''T'' TECHNICIAN (Some ''M2'') None),
      authStatus = Authenticated\<rparr>"

text \<open>The technician's manager is \<open>M2\<close>; \<open>M1\<close>, who manages the unit, is a coordinator too,
  and \<open>C2\<close> and \<open>C4\<close> are two more.\<close>

definition ex_users :: "User list" where
  "ex_users =
     [ex_user ''T'' TECHNICIAN (Some ''M2'') None,
      ex_user ''M1'' COORDINATOR None None,
      ex_user ''C2'' COORDINATOR None (Some True),
      ex_user ''C4'' COORDINATOR None None]"

text \<open>\<open>M1\<close> in all three roles: manager of the unit, manager of the technician, coordinator.
  \<open>C3\<close> is a deactivated coordinator.\<close>

definition ex_users_overlap :: "User list" where
  "ex_users_overlap =
     [ex_user ''T'' TECHNICIAN (Some ''M1'') None,
      ex_user ''M1'' COORDINATOR None None,
      ex_user ''C2'' COORDINATOR None (Some True),
      ex_user ''C3'' COORDINATOR None (Some False)]"

text \<open>A sign-in with the address \<open>ana@example.com\<close> and no display name, before any session
  exists. \<open>ex_auth_env found created so\<close> answers the lookup by email with \<open>found\<close>,
  \<^verbatim>\<open>createUserInFirestore\<close> with \<open>created\<close> and \<^verbatim>\<open>signOut\<close> with \<open>so\<close>.\<close>

definition ex_firebase_user :: FirebaseUser where
  "ex_firebase_user = \<lparr>fb_email = Some ''ana@example.com'', fb_displayName = None\<rparr>"

definition ex_loading :: app_state where
  "ex_loading = \<lparr>activeView = Dashboard, currentUser = None, authStatus = Loading\<rparr>"

definition ex_auth_env :: "User option \<Rightarrow> js_error + string \<Rightarrow> js_error + unit \<Rightarrow> app_env" where
  "ex_auth_env found created so =
     \<lparr>date_now = (\<lambda>h. ''2025-01-01T00:00:00.000Z''),
      getUserByEmailAddress = (\<lambda>h e. found),
      createUserInFirestore = (\<lambda>h d. created),
      submitChecklistToFirestore = (\<lambda>h c. Inr ''cl1''),
      createNotification = (\<lambda>h n. Inr ''n1''),
      signOut = (\<lambda>h. so)\<rparr>"

text \<open>An SDK that accepts every call: the clock is the length of the history, new documents
  get the id \<open>d1\<close>, the identity provider answers a sign-up with the uid \<open>uid-1\<close>.\<close>

definition ex_sdk :: sdk_env where
  "ex_sdk =
     \<lparr>firebaseApiKey = ''key'',
      timestamp_now = (\<lambda>h. length h),
      addDoc = (\<lambda>h coll p. Inr ''d1''),
      updateDoc = (\<lambda>h coll docId p. Inr ()),
      deleteDoc = (\<lambda>h coll docId. Inr ()),
      onSnapshot = (\<lambda>h coll cs. Inr ()),
      fetch = (\<lambda>h url body.
         Inr \<lparr>res_ok = True, res_status = ''200'', res_text = [],
              res_json = Inr \<lparr>idToken = ''tok'', email = ''bia@example.com'', refreshToken = ''ref'',
                               expiresIn = ''3600'', localId = ''uid-1''\<rparr>\<rparr>)\<rparr>"

text \<open>A partial update that unsets \<^verbatim>\<open>managerId\<close>, empties \<^verbatim>\<open>name\<close> and nulls \<^verbatim>\<open>unitId\<close>; a
  new user with a password; a notification feed with one unread entry.\<close>

definition ex_patch :: obj where
  "ex_patch = [(''name'', JStr []), (''managerId'', JUndefined), (''unitId'', JNull)]"

definition ex_new_user :: obj where
  "ex_new_user =
     [(''name'', JStr ''Bia''), (''email'', JStr ''bia@example.com''), (''password'', JStr ''s3cret''),
      (''role'', JStr ''Gestor''), (''managerId'', JUndefined)]"

definition ex_feed :: notifications_state where
  "ex_feed =
     \<lparr>notifications =
        [[(''id'', JStr ''n1''), (''userId'', JStr ''M1''), (''read'', JBool False)]],
      notifications_loading = False, notifications_error = None\<rparr>"

section \<open>Properties of the store adapter\<close>

lemma map_of_strip_fold:
  "distinct (map fst inp) \<Longrightarrow>
   map_of (fold (\<lambda>(k, v) payload. if v \<noteq> JUndefined then assign_prop k v payload else payload)
             inp acc) k =
   (case map_of inp k of
      None \<Rightarrow> map_of acc k
    | Some v \<Rightarrow> if v \<noteq> JUndefined \<and> k \<noteq> ''__proto__'' then Some v else map_of acc k)"
proof (induction inp arbitrary: acc)
  case Nil
  then show ?case by simp
next
  case (Cons p inp)
  obtain k' v' where p: "p = (k', v')" by (cases p)
  from Cons.prems p have notin: "k' \<notin> fst ` set inp" and d: "distinct (map fst inp)"
    by auto
  from notin have none: "map_of inp k' = None"
    by (simp add: map_of_eq_None_iff)
  show ?case
    using Cons.IH [OF d] none p
    by (auto simp: assign_prop_def update_conv' split: option.splits)
qed

lemma map_of_strip_undefined:
  "wf_obj inp \<Longrightarrow>
   map_of (strip_undefined inp) k =
     (if obj_get inp k = JUndefined \<or> k = ''__proto__'' then None else map_of inp k)"
  unfolding strip_undefined_def wf_obj_def obj_get_def
  by (simp add: map_of_strip_fold split: option.splits)

lemma distinct_strip_fold:
  "distinct (map fst acc) \<Longrightarrow>
   distinct (map fst (fold (\<lambda>(k, v) payload. if v \<noteq> JUndefined then assign_prop k v payload else payload)
             inp acc))"
  by (induction inp arbitrary: acc) (auto simp: assign_prop_def distinct_update)

lemma wf_strip_undefined: "wf_obj (strip_undefined inp)"
  unfolding strip_undefined_def wf_obj_def by (rule distinct_strip_fold) simp

lemma add_payload_map:
  assumes "wf_obj inp"
  shows "map_of (AList.update ''updatedAt'' (JTimestamp t2)
                   (AList.update ''createdAt'' (JTimestamp t1) (strip_undefined inp))) k =
         (if k = ''updatedAt'' then Some (JTimestamp t2)
          else if k = ''createdAt'' then Some (JTimestamp t1)
          else if obj_get inp k = JUndefined \<or> k = ''__proto__'' then None else map_of inp k)"
  using map_of_strip_undefined [OF assms, of k] by (simp add: update_conv')

lemma update_payload_map:
  assumes "wf_obj inp"
  shows "map_of (AList.update ''updatedAt'' (JTimestamp t) (strip_undefined inp)) k =
         (if k = ''updatedAt'' then Some (JTimestamp t)
          else if obj_get inp k = JUndefined \<or> k = ''__proto__'' then None else map_of inp k)"
  using map_of_strip_undefined [OF assms, of k] by (simp add: update_conv')

lemma keys_strip_undefined:
  assumes "wf_obj inp"
  shows "fst ` set (strip_undefined inp) =
           {k \<in> fst ` set inp. obj_get inp k \<noteq> JUndefined \<and> k \<noteq> ''__proto__''}"
proof -
  have "dom (map_of (strip_undefined inp)) =
          {k \<in> dom (map_of inp). obj_get inp k \<noteq> JUndefined \<and> k \<noteq> ''__proto__''}"
    using map_of_strip_undefined [OF assms] by (auto simp: dom_def)
  then show ?thesis by (simp add: dom_map_of_conv_image_fst)
qed

lemma outgoing_payloads_Nil [simp]: "outgoing_payloads [] = []"
  by (simp add: outgoing_payloads_def)

lemma outgoing_payloads_Cons [simp]:
  "outgoing_payloads (e # h) =
     (case e of AddDoc coll p r \<Rightarrow> [(coll, p)] | UpdateDoc coll docId p r \<Rightarrow> [(coll, p)] | _ \<Rightarrow> [])
     @ outgoing_payloads h"
  by (simp add: outgoing_payloads_def)

lemma outgoing_payloads_append [simp]:
  "outgoing_payloads (h @ h') = outgoing_payloads h @ outgoing_payloads h'"
  by (simp add: outgoing_payloads_def)

lemma createUserWithPassword_events:
  "\<exists>res evs. snd (createUserWithPassword E em pw dn h) =
       h @ Fetch (signUpUrl E) [(''email'', em), (''password'', pw), (''returnSecureToken'', JBool True)] res # evs
     \<and> outgoing_payloads evs = []
     \<and> (\<forall>su. fst (createUserWithPassword E em pw dn h) = Inr su \<longrightarrow>
           (\<exists>resp. res = Inr resp \<and> res_ok resp \<and> res_json resp = Inr su))"
proof -
  let ?body = "[(''email'', em), (''password'', pw), (''returnSecureToken'', JBool True)]"
  let ?res = "fetch E h (signUpUrl E) ?body"
  let ?h1 = "h @ [Fetch (signUpUrl E) ?body ?res]"
  show ?thesis
  proof (cases ?res)
    case (Inl err)
    then show ?thesis
      by (intro exI [of _ ?res] exI [of _ "[]"]) (simp add: createUserWithPassword_def Let_def)
  next
    case (Inr resp)
    show ?thesis
    proof (cases "res_ok resp")
      case False
      with Inr show ?thesis
        by (intro exI [of _ ?res] exI [of _ "[]"]) (simp add: createUserWithPassword_def Let_def)
    next
      case True
      show ?thesis
      proof (cases "res_json resp")
        case (Inl err)
        with Inr True show ?thesis
          by (intro exI [of _ ?res] exI [of _ "[]"]) (simp add: createUserWithPassword_def Let_def)
      next
        case (Inr su)
        note su = this
        show ?thesis
        proof (cases "truthy dn")
          case False
          with \<open>?res = Inr resp\<close> True su show ?thesis
            by (intro exI [of _ ?res] exI [of _ "[]"]) (simp add: createUserWithPassword_def Let_def)
        next
          case dn: True
          let ?body2 = "[(''idToken'', JStr (idToken su)), (''displayName'', dn),
                         (''returnSecureToken'', JBool False)]"
          let ?res2 = "fetch E ?h1 (updateUrl E) ?body2"
          from \<open>?res = Inr resp\<close> True su dn show ?thesis
            by (intro exI [of _ ?res] exI [of _ "[Fetch (updateUrl E) ?body2 ?res2]"])
               (cases ?res2; simp add: createUserWithPassword_def Let_def)
        qed
      qed
    qed
  qed
qed

lemma add_events:
  "snd (snd (add E coll item (c, h))) =
     h @ [TimestampNow (timestamp_now E h),
          TimestampNow (timestamp_now E (h @ [TimestampNow (timestamp_now E h)])),
          AddDoc coll
            (AList.update ''updatedAt''
               (JTimestamp (timestamp_now E (h @ [TimestampNow (timestamp_now E h)])))
               (AList.update ''createdAt'' (JTimestamp (timestamp_now E h)) (strip_undefined item)))
            (fst (add E coll item (c, h)))]"
  by (simp add: add_def FirestoreService_add_def Let_def split: sum.splits)

lemma stored_fields:
  assumes "wf_obj userData"
  shows "map_of (AList.update ''updatedAt'' t2 (AList.update ''createdAt'' t1
            (strip_undefined (AList.update ''authUid'' (JStr uid) (AList.delete ''password'' userData))))) k =
         (if k = ''updatedAt'' then Some t2
          else if k = ''createdAt'' then Some t1
          else if k = ''authUid'' then Some (JStr uid)
          else if k = ''password'' \<or> k = ''__proto__'' \<or> obj_get userData k = JUndefined then None
          else map_of userData k)"
proof -
  let ?item = "AList.update ''authUid'' (JStr uid) (AList.delete ''password'' userData)"
  have wf: "wf_obj ?item"
    using assms by (simp add: wf_obj_def distinct_update distinct_delete)
  have get: "obj_get ?item k =
      (if k = ''authUid'' then JStr uid else if k = ''password'' then JUndefined else obj_get userData k)"
    by (simp add: obj_get_def update_conv' delete_conv')
  have m: "map_of ?item k =
      (if k = ''authUid'' then Some (JStr uid) else if k = ''password'' then None else map_of userData k)"
    by (simp add: update_conv' delete_conv')
  show ?thesis
    using map_of_strip_undefined [OF wf, of k] get m by (simp add: update_conv')
qed

lemma createUser_payloads:
  assumes "wf_obj userData" and "truthy (obj_get userData ''password'')"
  shows "\<exists>res evs.
       snd (snd (createUser E userData (c, h))) =
         h @ Fetch (signUpUrl E)
               [(''email'', obj_get userData ''email''), (''password'', obj_get userData ''password''),
                (''returnSecureToken'', JBool True)] res # evs
     \<and> length (outgoing_payloads evs) \<le> 1
     \<and> (\<forall>docId. fst (createUser E userData (c, h)) = Inr docId \<longrightarrow> length (outgoing_payloads evs) = 1)
     \<and> (\<forall>coll p. (coll, p) \<in> set (outgoing_payloads evs) \<longrightarrow>
            coll = ''users''
          \<and> map_of p ''password'' = None
          \<and> (\<exists>resp su. res = Inr resp \<and> res_ok resp \<and> res_json resp = Inr su
                \<and> map_of p ''authUid'' = Some (JStr (localId su)))
          \<and> (\<forall>k. k \<noteq> ''authUid'' \<and> k \<noteq> ''createdAt'' \<and> k \<noteq> ''updatedAt'' \<longrightarrow>
                map_of p k = (if k = ''password'' \<or> k = ''__proto__'' \<or> obj_get userData k = JUndefined then None
                              else map_of userData k)))"
proof -
  let ?em = "obj_get userData ''email''"
  let ?pw = "obj_get userData ''password''"
  let ?dn = "obj_get userData ''name''"
  let ?body = "[(''email'', ?em), (''password'', ?pw), (''returnSecureToken'', JBool True)]"
  obtain r1 h1 where cw: "createUserWithPassword E ?em ?pw ?dn h = (r1, h1)"
    by (cases "createUserWithPassword E ?em ?pw ?dn h")
  from createUserWithPassword_events [of E ?em ?pw ?dn h] cw obtain res e1 where
    h1: "h1 = h @ Fetch (signUpUrl E) ?body res # e1"
    and o1: "outgoing_payloads e1 = []"
    and ok: "\<forall>su. r1 = Inr su \<longrightarrow> (\<exists>resp. res = Inr resp \<and> res_ok resp \<and> res_json resp = Inr su)"
    by auto
  show ?thesis
  proof (cases r1)
    case (Inl err)
    with assms cw h1 have "snd (snd (createUser E userData (c, h))) = h @ Fetch (signUpUrl E) ?body res # e1"
      and "fst (createUser E userData (c, h)) = Inl err"
      by (simp_all add: createUser_def)
    with o1 show ?thesis
      by (intro exI [of _ res] exI [of _ e1]) simp
  next
    case (Inr su)
    let ?item = "AList.update ''authUid'' (JStr (localId su)) (AList.delete ''password'' userData)"
    let ?t1 = "timestamp_now E h1"
    let ?t2 = "timestamp_now E (h1 @ [TimestampNow ?t1])"
    let ?p = "AList.update ''updatedAt'' (JTimestamp ?t2)
               (AList.update ''createdAt'' (JTimestamp ?t1) (strip_undefined ?item))"
    let ?r = "fst (add E ''users'' ?item (c, h1))"
    let ?e2 = "[TimestampNow ?t1, TimestampNow ?t2, AddDoc ''users'' ?p ?r]"
    from assms cw Inr have cu: "createUser E userData (c, h) = add E ''users'' ?item (c, h1)"
      by (simp add: createUser_def Let_def)
    have run: "snd (snd (createUser E userData (c, h))) = h @ Fetch (signUpUrl E) ?body res # (e1 @ ?e2)"
      unfolding cu using add_events [of E "''users''" ?item c h1] h1 by simp
    have out: "outgoing_payloads (e1 @ ?e2) = [(''users'', ?p)]"
      using o1 by simp
    from ok Inr obtain resp where resp: "res = Inr resp" "res_ok resp" "res_json resp = Inr su"
      by auto
    have fields: "\<And>k. map_of ?p k =
         (if k = ''updatedAt'' then Some (JTimestamp ?t2)
          else if k = ''createdAt'' then Some (JTimestamp ?t1)
          else if k = ''authUid'' then Some (JStr (localId su))
          else if k = ''password'' \<or> k = ''__proto__'' \<or> obj_get userData k = JUndefined then None
          else map_of userData k)"
      by (rule stored_fields [OF assms(1)])
    have pw: "map_of ?p ''password'' = None"
      by (simp add: fields)
    have au: "map_of ?p ''authUid'' = Some (JStr (localId su))"
      by (simp add: fields)
    have rest: "\<forall>k. k \<noteq> ''authUid'' \<and> k \<noteq> ''createdAt'' \<and> k \<noteq> ''updatedAt'' \<longrightarrow>
                map_of ?p k = (if k = ''password'' \<or> k = ''__proto__'' \<or> obj_get userData k = JUndefined then None
                              else map_of userData k)"
      by (simp add: fields)
    show ?thesis
      apply (intro exI [of _ res] exI [of _ "e1 @ ?e2"] conjI)
      subgoal using run .
      subgoal unfolding out by simp
      subgoal unfolding out by simp
      subgoal unfolding out using pw au rest resp by simp
      done
  qed
qed

lemma createUser_new_payloads:
  assumes "wf_obj userData" and "truthy (obj_get userData ''password'')"
      and "(coll, p) \<in> set (outgoing_payloads (drop (length h) (snd (snd (createUser E userData (c, h))))))"
  shows "\<forall>k. k \<noteq> ''authUid'' \<and> k \<noteq> ''createdAt'' \<and> k \<noteq> ''updatedAt'' \<longrightarrow>
            map_of p k = (if k = ''password'' \<or> k = ''__proto__'' \<or> obj_get userData k = JUndefined then None
                          else map_of userData k)"
proof -
  from createUser_payloads [OF assms(1,2), of E c h] obtain res evs where
    run: "snd (snd (createUser E userData (c, h))) =
         h @ Fetch (signUpUrl E)
               [(''email'', obj_get userData ''email''), (''password'', obj_get userData ''password''),
                (''returnSecureToken'', JBool True)] res # evs"
    and all: "\<forall>coll p. (coll, p) \<in> set (outgoing_payloads evs) \<longrightarrow>
            coll = ''users''
          \<and> map_of p ''password'' = None
          \<and> (\<exists>resp su. res = Inr resp \<and> res_ok resp \<and> res_json resp = Inr su
                \<and> map_of p ''authUid'' = Some (JStr (localId su)))
          \<and> (\<forall>k. k \<noteq> ''authUid'' \<and> k \<noteq> ''createdAt'' \<and> k \<noteq> ''updatedAt'' \<longrightarrow>
                map_of p k = (if k = ''password'' \<or> k = ''__proto__'' \<or> obj_get userData k = JUndefined then None
                              else map_of userData k))"
    by (elim exE conjE)
  from assms(3) have "(coll, p) \<in> set (outgoing_payloads evs)"
    unfolding run by simp
  with all show ?thesis by simp
qed

section \<open>Properties of the notification fanout\<close>

lemma notification_calls_append [simp]:
  "notification_calls (h @ h') = notification_calls h @ notification_calls h'"
  by (simp add: notification_calls_def)

lemma notification_calls_Nil [simp]: "notification_calls [] = []"
  by (simp add: notification_calls_def)

lemma aborted_append [simp]: "aborted (h @ h') = (aborted h \<or> aborted h')"
  by (simp add: aborted_def)

lemma aborted_Nil [simp]: "\<not> aborted []"
  by (simp add: aborted_def)

lemma attempted_append [simp]:
  "attempted_recipients (h @ h') = attempted_recipients h @ attempted_recipients h'"
  by (simp add: attempted_recipients_def)

lemma attempted_Nil [simp]: "attempted_recipients [] = []"
  by (simp add: attempted_recipients_def)

lemma notify_history:
  "notify A uid cid msg h = (r, h') \<Longrightarrow>
   \<exists>evs. h' = h @ evs \<and> notification_calls evs = [(uid, r)] \<and> \<not> aborted evs"
  unfolding notify_def Let_def by (auto simp: notification_calls_def aborted_def)

lemma notify_coordinators_history:
  "\<exists>evs. notify_coordinators A tech un tp cid N cs h = h @ evs \<and> \<not> aborted evs
     \<and> attempted_recipients evs = filter (\<lambda>i. i \<notin> N) (map u_id cs)"
proof (induction cs arbitrary: h)
  case Nil
  show ?case by simp
next
  case (Cons c cs)
  show ?case
  proof (cases "u_id c \<in> N")
    case True
    with Cons.IH [of h] show ?thesis by simp
  next
    case False
    obtain r h1 where n: "notify A (u_id c) cid (nonconformity_message tech un tp) h = (r, h1)"
      by (cases "notify A (u_id c) cid (nonconformity_message tech un tp) h")
    from notify_history [OF n] obtain e1 where
      e1: "h1 = h @ e1" "notification_calls e1 = [(u_id c, r)]" "\<not> aborted e1" by blast
    show ?thesis
    proof (cases r)
      case (Inl err)
      let ?w = "[ConsoleWarn [CStr ''Falha ao notificar coordenador:'', CStr (u_id c), CErr err]]"
      from Cons.IH [of "h1 @ ?w"] obtain e2 where
        e2: "notify_coordinators A tech un tp cid N cs (h1 @ ?w) = (h1 @ ?w) @ e2" "\<not> aborted e2"
            "attempted_recipients e2 = filter (\<lambda>i. i \<notin> N) (map u_id cs)" by blast
      have "notify_coordinators A tech un tp cid N (c # cs) h = h @ (e1 @ ?w @ e2)"
        using False n Inl e1 e2 by simp
      moreover have "\<not> aborted (e1 @ ?w @ e2)"
        using e1 e2 by (simp add: aborted_def)
      moreover have "attempted_recipients (e1 @ ?w @ e2) = filter (\<lambda>i. i \<notin> N) (map u_id (c # cs))"
        using False e1 e2 by (simp add: attempted_recipients_def notification_calls_def)
      ultimately show ?thesis by blast
    next
      case (Inr nid)
      from Cons.IH [of h1] obtain e2 where
        e2: "notify_coordinators A tech un tp cid N cs h1 = h1 @ e2" "\<not> aborted e2"
            "attempted_recipients e2 = filter (\<lambda>i. i \<notin> N) (map u_id cs)" by blast
      have "notify_coordinators A tech un tp cid N (c # cs) h = h @ (e1 @ e2)"
        using False n Inr e1 e2 by simp
      moreover have "\<not> aborted (e1 @ e2)"
        using e1 e2 by simp
      moreover have "attempted_recipients (e1 @ e2) = filter (\<lambda>i. i \<notin> N) (map u_id (c # cs))"
        using False e1 e2 by (simp add: attempted_recipients_def)
      ultimately show ?thesis by blast
    qed
  qed
qed

lemma notify_unit_manager_history:
  assumes "notify_unit_manager A tech un tp cid h = (res, h')"
  shows "\<exists>evs. h' = h @ evs \<and> \<not> aborted evs
     \<and> attempted_recipients evs =
         (case unit_manager_of un of None \<Rightarrow> [] | Some m \<Rightarrow> if m = [] then [] else [m])
     \<and> (\<forall>N. res = Inr N \<longrightarrow> N = set (attempted_recipients evs))"
proof (cases "unit_manager_of un")
  case None
  with assms show ?thesis by (auto simp: notify_unit_manager_def)
next
  case (Some m)
  show ?thesis
  proof (cases "m = []")
    case True
    with Some assms show ?thesis by (auto simp: notify_unit_manager_def)
  next
    case False
    obtain r h1 where n: "notify A m cid (nonconformity_message tech un tp) h = (r, h1)"
      by (cases "notify A m cid (nonconformity_message tech un tp) h")
    from notify_history [OF n] obtain e1 where
      e1: "h1 = h @ e1" "notification_calls e1 = [(m, r)]" "\<not> aborted e1" by blast
    from assms Some False n have "h' = h1" and "\<forall>N. res = Inr N \<longrightarrow> N = {m}"
      by (auto simp: notify_unit_manager_def split: sum.splits)
    with e1 Some False show ?thesis
      by (auto simp: attempted_recipients_def)
  qed
qed

lemma notify_technician_manager_history:
  assumes "notify_technician_manager A tech un tp cid N h = (res, h')"
  shows "\<exists>evs. h' = h @ evs \<and> \<not> aborted evs
     \<and> attempted_recipients evs =
         (case tech of None \<Rightarrow> []
          | Some t \<Rightarrow> (case u_managerId t of None \<Rightarrow> []
              | Some m \<Rightarrow> if m \<noteq> [] \<and> Some m \<noteq> unit_manager_of un \<and> m \<notin> N then [m] else []))
     \<and> (\<forall>N'. res = Inr N' \<longrightarrow> N' = N \<union> set (attempted_recipients evs))"
proof (cases tech)
  case None
  with assms show ?thesis by (auto simp: notify_technician_manager_def)
next
  case (Some t)
  note t = this
  show ?thesis
  proof (cases "u_managerId t")
    case None
    with t assms show ?thesis by (auto simp: notify_technician_manager_def)
  next
    case (Some m)
    show ?thesis
    proof (cases "m \<noteq> [] \<and> Some m \<noteq> unit_manager_of un \<and> m \<notin> N")
      case False
      with t Some assms show ?thesis by (auto simp: notify_technician_manager_def)
    next
      case True
      obtain r h1 where n: "notify A m cid (collaborator_message t un tp) h = (r, h1)"
        by (cases "notify A m cid (collaborator_message t un tp) h")
      from notify_history [OF n] obtain e1 where
        e1: "h1 = h @ e1" "notification_calls e1 = [(m, r)]" "\<not> aborted e1" by blast
      from assms t Some True n have "h' = h1" and "\<forall>N'. res = Inr N' \<longrightarrow> N' = insert m N"
        by (auto simp: notify_technician_manager_def split: sum.splits)
      with e1 t Some True show ?thesis
        by (auto simp: attempted_recipients_def)
    qed
  qed
qed

lemma fanout_history:
  assumes "fanout A users units templates cd cid h = (res, h')"
  shows "\<exists>mgrs coords m2. h' = h @ mgrs @ coords \<and> \<not> aborted (mgrs @ coords)
     \<and> set m2 \<subseteq> {m. \<exists>t. find (\<lambda>u. u_id u = technicianId cd) users = Some t \<and> u_managerId t = Some m
                         \<and> Some m \<noteq> unit_manager_of (find (\<lambda>u. unit_id u = unitId cd) units)}
     \<and> length m2 \<le> 1
     \<and> attempted_recipients mgrs =
          (case unit_manager_of (find (\<lambda>u. unit_id u = unitId cd) units) of
                  None \<Rightarrow> [] | Some m \<Rightarrow> if m = [] then [] else [m]) @ m2
     \<and> (case res of
           None \<Rightarrow> attempted_recipients coords =
                     filter (\<lambda>i. i \<notin> set (attempted_recipients mgrs)) (map u_id (active_coordinators users))
         | Some err \<Rightarrow> coords = [])"
proof -
  let ?tech = "find (\<lambda>u. u_id u = technicianId cd) users"
  let ?un = "find (\<lambda>u. unit_id u = unitId cd) units"
  let ?tp = "find (\<lambda>t. template_id t = templateId cd) templates"
  obtain r1 h1 where s1: "notify_unit_manager A ?tech ?un ?tp cid h = (r1, h1)"
    by (cases "notify_unit_manager A ?tech ?un ?tp cid h")
  from notify_unit_manager_history [OF s1] obtain e1 where
    e1: "h1 = h @ e1" "\<not> aborted e1"
        "attempted_recipients e1 =
           (case unit_manager_of ?un of None \<Rightarrow> [] | Some m \<Rightarrow> if m = [] then [] else [m])"
        "\<forall>N. r1 = Inr N \<longrightarrow> N = set (attempted_recipients e1)"
    by blast
  show ?thesis
  proof (cases r1)
    case (Inl err)
    with assms s1 have "res = Some err" "h' = h1"
      by (simp_all add: fanout_def)
    with e1 show ?thesis
      by (intro exI [of _ e1] exI [of _ "[]"] exI [of _ "[]"]) simp
  next
    case (Inr N1)
    with e1 have N1: "N1 = set (attempted_recipients e1)" by simp
    obtain r2 h2 where s2: "notify_technician_manager A ?tech ?un ?tp cid N1 h1 = (r2, h2)"
      by (cases "notify_technician_manager A ?tech ?un ?tp cid N1 h1")
    from notify_technician_manager_history [OF s2] obtain e2 where
      e2: "h2 = h1 @ e2" "\<not> aborted e2"
          "attempted_recipients e2 =
             (case ?tech of None \<Rightarrow> []
              | Some t \<Rightarrow> (case u_managerId t of None \<Rightarrow> []
                  | Some m \<Rightarrow> if m \<noteq> [] \<and> Some m \<noteq> unit_manager_of ?un \<and> m \<notin> N1 then [m] else []))"
          "\<forall>N'. r2 = Inr N' \<longrightarrow> N' = N1 \<union> set (attempted_recipients e2)"
      by blast
    have m2: "set (attempted_recipients e2) \<subseteq>
                {m. \<exists>t. ?tech = Some t \<and> u_managerId t = Some m \<and> Some m \<noteq> unit_manager_of ?un}"
             "length (attempted_recipients e2) \<le> 1"
      using e2(3) by (auto split: option.splits if_splits)
    show ?thesis
    proof (cases r2)
      case (Inl err)
      with assms s1 s2 Inr have "res = Some err" "h' = h2"
        by (simp_all add: fanout_def)
      with e1 e2 m2 show ?thesis
        by (intro exI [of _ "e1 @ e2"] exI [of _ "[]"] exI [of _ "attempted_recipients e2"]) simp
    next
      case (Inr N2)
      with e2 N1 have N2: "N2 = set (attempted_recipients (e1 @ e2))" by simp
      from notify_coordinators_history [of A ?tech ?un ?tp cid N2 "active_coordinators users" h2]
      obtain e3 where
        e3: "notify_coordinators A ?tech ?un ?tp cid N2 (active_coordinators users) h2 = h2 @ e3"
            "\<not> aborted e3"
            "attempted_recipients e3 = filter (\<lambda>i. i \<notin> N2) (map u_id (active_coordinators users))"
        by blast
      from assms s1 s2 \<open>r1 = Inr N1\<close> Inr e3 have "res = None" "h' = h2 @ e3"
        by (simp_all add: fanout_def)
      with e1 e2 e3 m2 N2 show ?thesis
        by (intro exI [of _ "e1 @ e2"] exI [of _ e3] exI [of _ "attempted_recipients e2"]) simp
    qed
  qed
qed

lemma submitChecklist_cases:
  obtains
    (no_user) "currentUser s = None"
      "submitChecklist A users units templates cd (s, h) = (s, h)"
  | (write_failed) cu now err where "currentUser s = Some cu"
      "submitChecklist A users units templates cd (s, h) =
         (s, h @ [DateNow now,
                  SubmitChecklistToFirestore (new_completed_checklist cd now (has_non_conformities cd)) (Inl err),
                  ConsoleErr [CStr ''Error submitting checklist:'', CErr err]])"
  | (conform) cu now cid where "currentUser s = Some cu" "\<not> has_non_conformities cd"
      "submitChecklist A users units templates cd (s, h) =
         (s\<lparr>activeView := Checklists\<rparr>,
          h @ [DateNow now,
               SubmitChecklistToFirestore (new_completed_checklist cd now (has_non_conformities cd)) (Inr cid)])"
  | (fanned_out) cu now cid h' where "currentUser s = Some cu" "has_non_conformities cd"
      "fanout A users units templates cd cid
         (h @ [DateNow now,
               SubmitChecklistToFirestore (new_completed_checklist cd now (has_non_conformities cd)) (Inr cid)])
       = (None, h')"
      "submitChecklist A users units templates cd (s, h) = (s\<lparr>activeView := Checklists\<rparr>, h')"
  | (fanout_failed) cu now cid err h' where "currentUser s = Some cu" "has_non_conformities cd"
      "fanout A users units templates cd cid
         (h @ [DateNow now,
               SubmitChecklistToFirestore (new_completed_checklist cd now (has_non_conformities cd)) (Inr cid)])
       = (Some err, h')"
      "submitChecklist A users units templates cd (s, h) =
         (s, h' @ [ConsoleErr [CStr ''Error submitting checklist:'', CErr err]])"
proof (cases "currentUser s")
  case None
  then show ?thesis using no_user by (simp add: submitChecklist_def)
next
  case (Some cu)
  let ?now = "date_now A h"
  let ?c = "new_completed_checklist cd ?now (has_non_conformities cd)"
  let ?r = "submitChecklistToFirestore A (h @ [DateNow ?now]) ?c"
  show ?thesis
  proof (cases ?r)
    case (Inl err)
    with Some show ?thesis using write_failed [where cu = cu and now = ?now and err = err]
      by (simp add: submitChecklist_def Let_def)
  next
    case (Inr cid)
    let ?h2 = "h @ [DateNow ?now, SubmitChecklistToFirestore ?c (Inr cid)]"
    show ?thesis
    proof (cases "has_non_conformities cd")
      case False
      with Some Inr show ?thesis using conform [where cu = cu and now = ?now and cid = cid]
        by (simp add: submitChecklist_def Let_def)
    next
      case True
      obtain res h' where f: "fanout A users units templates cd cid ?h2 = (res, h')"
        by (cases "fanout A users units templates cd cid ?h2")
      show ?thesis
      proof (cases res)
        case None
        with Some Inr True f show ?thesis using fanned_out [where cu = cu and now = ?now and cid = cid and h' = h']
          by (simp add: submitChecklist_def Let_def)
      next
        case (Some err)
        with \<open>currentUser s = Some cu\<close> Inr True f show ?thesis using fanout_failed [where cu = cu and now = ?now and cid = cid and err = err and h' = h']
          by (simp add: submitChecklist_def Let_def)
      qed
    qed
  qed
qed

lemma created_subset_attempted:
  "set (created_recipients evs) \<subseteq> set (attempted_recipients evs)"
  by (auto simp: created_recipients_def attempted_recipients_def)

lemma distinct_created:
  "distinct (attempted_recipients evs) \<Longrightarrow> distinct (created_recipients evs)"
  unfolding created_recipients_def attempted_recipients_def by (rule distinct_map_filter)

lemma count_filter_fst:
  "(\<forall>p \<in> set xs. fst p = m \<longrightarrow> P p) \<Longrightarrow>
   count_list (map fst (filter P xs)) m = count_list (map fst xs) m"
  by (induction xs) auto

lemma count_created:
  assumes "\<forall>e. (m, Inl e) \<notin> set (notification_calls evs)"
  shows "count_list (created_recipients evs) m = count_list (attempted_recipients evs) m"
  unfolding created_recipients_def attempted_recipients_def
proof (rule count_filter_fst, intro ballI impI)
  fix p assume "p \<in> set (notification_calls evs)" "fst p = m"
  with assms show "\<not> isl (snd p)" by (cases p; cases "snd p") auto
qed

lemma attempted_created:
  assumes "i \<in> set (attempted_recipients evs)"
      and "\<forall>e. (i, Inl e) \<notin> set (notification_calls evs)"
  shows "i \<in> set (created_recipients evs)"
proof -
  from assms(1) have "count_list (attempted_recipients evs) i \<noteq> 0"
    by (simp add: count_list_0_iff)
  with count_created [OF assms(2)] have "count_list (created_recipients evs) i \<noteq> 0"
    by simp
  then show ?thesis
    by (simp add: count_list_0_iff)
qed

lemma distinct_coordinator_ids:
  "distinct (map u_id users) \<Longrightarrow> distinct (map u_id (active_coordinators users))"
  unfolding active_coordinators_def by (rule distinct_map_filter)

lemma fanout_recipients:
  assumes "fanout A users units templates cd cid h = (res, h')"
  shows "\<exists>evs. h' = h @ evs \<and> \<not> aborted evs
     \<and> (distinct (map u_id users) \<longrightarrow> distinct (attempted_recipients evs))
     \<and> set (attempted_recipients evs) \<subseteq>
         {m. unit_manager_of (find (\<lambda>u. unit_id u = unitId cd) units) = Some m}
       \<union> {m. \<exists>t. find (\<lambda>u. u_id u = technicianId cd) users = Some t \<and> u_managerId t = Some m}
       \<union> u_id ` set (active_coordinators users)
     \<and> (\<forall>m. unit_manager_of (find (\<lambda>u. unit_id u = unitId cd) units) = Some m \<and> m \<noteq> []
            \<longrightarrow> count_list (attempted_recipients evs) m = 1)
     \<and> (res = None \<longrightarrow>
          (\<exists>mgrs. attempted_recipients evs =
                     mgrs @ filter (\<lambda>i. i \<notin> set mgrs) (map u_id (active_coordinators users))
             \<and> set mgrs \<subseteq>
                 {m. unit_manager_of (find (\<lambda>u. unit_id u = unitId cd) units) = Some m}
               \<union> {m. \<exists>t. find (\<lambda>u. u_id u = technicianId cd) users = Some t \<and> u_managerId t = Some m}))"
proof -
  let ?um = "unit_manager_of (find (\<lambda>u. unit_id u = unitId cd) units)"
  let ?m1 = "case ?um of None \<Rightarrow> [] | Some m \<Rightarrow> if m = [] then [] else [m]"
  let ?TM = "{m. \<exists>t. find (\<lambda>u. u_id u = technicianId cd) users = Some t \<and> u_managerId t = Some m}"
  let ?cs = "map u_id (active_coordinators users)"
  from fanout_history [OF assms] obtain mgrs coords m2 where
    h': "h' = h @ mgrs @ coords" and na: "\<not> aborted (mgrs @ coords)"
    and m2: "set m2 \<subseteq> {m. \<exists>t. find (\<lambda>u. u_id u = technicianId cd) users = Some t \<and> u_managerId t = Some m
                         \<and> Some m \<noteq> ?um}" "length m2 \<le> 1"
    and mgrs: "attempted_recipients mgrs = ?m1 @ m2"
    and coords: "case res of None \<Rightarrow> attempted_recipients coords =
                     filter (\<lambda>i. i \<notin> set (attempted_recipients mgrs)) ?cs
                 | Some err \<Rightarrow> coords = []"
    by blast
  have m1: "set ?m1 \<subseteq> {m. ?um = Some m}" "distinct ?m1"
    by (auto split: option.splits)
  have disj: "set ?m1 \<inter> set m2 = {}"
    using m2(1) by (auto split: option.splits if_splits)
  have dm2: "distinct m2"
    using m2(2) by (cases m2) auto
  have dmgrs: "distinct (attempted_recipients mgrs)"
    using m1 dm2 disj mgrs by simp
  have sub_mgrs: "set (attempted_recipients mgrs) \<subseteq> {m. ?um = Some m} \<union> ?TM"
    using m1 m2(1) mgrs by auto
  have ccases: "attempted_recipients coords = filter (\<lambda>i. i \<notin> set (attempted_recipients mgrs)) ?cs
                \<or> attempted_recipients coords = []"
    using coords by (cases res) auto
  have dall: "distinct (map u_id users) \<longrightarrow> distinct (attempted_recipients (mgrs @ coords))"
    using ccases dmgrs distinct_coordinator_ids [of users] by auto
  have sub: "set (attempted_recipients (mgrs @ coords)) \<subseteq> {m. ?um = Some m} \<union> ?TM \<union> u_id ` set (active_coordinators users)"
    using ccases sub_mgrs by auto
  have cnt: "\<forall>m. ?um = Some m \<and> m \<noteq> [] \<longrightarrow> count_list (attempted_recipients (mgrs @ coords)) m = 1"
  proof (intro allI impI)
    fix m assume um: "?um = Some m \<and> m \<noteq> []"
    then have a: "?m1 = [m]" by simp
    from um m2(1) have b: "m \<notin> set m2" by auto
    from a mgrs have "m \<in> set (attempted_recipients mgrs)" by simp
    with ccases have c: "m \<notin> set (attempted_recipients coords)" by auto
    from a b c mgrs show "count_list (attempted_recipients (mgrs @ coords)) m = 1"
      by (simp add: count_list_0_iff)
  qed
  have full: "res = None \<longrightarrow>
          (\<exists>ms. attempted_recipients (mgrs @ coords) = ms @ filter (\<lambda>i. i \<notin> set ms) ?cs
             \<and> set ms \<subseteq> {m. ?um = Some m} \<union> ?TM)"
    using coords sub_mgrs by (intro impI exI [of _ "attempted_recipients mgrs"]) simp
  from h' na dall sub cnt full show ?thesis
    by (intro exI [of _ "mgrs @ coords"] conjI) 
qed

lemma notification_calls_Cons [simp]:
  "notification_calls (e # h) =
     (case e of CreateNotification n r \<Rightarrow> [(userId n, r)] | _ \<Rightarrow> []) @ notification_calls h"
  by (simp add: notification_calls_def)

lemma aborted_Cons [simp]:
  "aborted (e # h) = ((case e of ConsoleErr args \<Rightarrow> True | _ \<Rightarrow> False) \<or> aborted h)"
  by (simp add: aborted_def)

lemma attempted_recipients_Cons [simp]:
  "attempted_recipients (e # h) =
     (case e of CreateNotification n r \<Rightarrow> [userId n] | _ \<Rightarrow> []) @ attempted_recipients h"
  by (cases e) (simp_all add: attempted_recipients_def)

lemma submitted_checklists_Nil [simp]: "submitted_checklists [] = []"
  by (simp add: submitted_checklists_def)

lemma submitted_checklists_Cons [simp]:
  "submitted_checklists (e # h) =
     (case e of SubmitChecklistToFirestore c r \<Rightarrow> [c] | _ \<Rightarrow> []) @ submitted_checklists h"
  by (simp add: submitted_checklists_def)

lemma submitted_checklists_append [simp]:
  "submitted_checklists (h @ h') = submitted_checklists h @ submitted_checklists h'"
  by (simp add: submitted_checklists_def)

lemma notify_submitted:
  "notify A uid cid msg h = (r, h') \<Longrightarrow> submitted_checklists h' = submitted_checklists h"
  by (auto simp: notify_def Let_def)

lemma notify_coordinators_submitted:
  "submitted_checklists (notify_coordinators A tech un tp cid N cs h) = submitted_checklists h"
proof (induction cs arbitrary: h)
  case Nil
  show ?case by simp
next
  case (Cons c cs)
  show ?case
    using Cons.IH by (auto split: prod.splits sum.splits dest: notify_submitted)
qed

lemma notify_unit_manager_submitted:
  "submitted_checklists (snd (notify_unit_manager A tech un tp cid h)) = submitted_checklists h"
  by (auto simp: notify_unit_manager_def split: option.splits prod.splits sum.splits
        dest: notify_submitted)

lemma notify_technician_manager_submitted:
  "submitted_checklists (snd (notify_technician_manager A tech un tp cid N h)) = submitted_checklists h"
  by (auto simp: notify_technician_manager_def split: option.splits prod.splits sum.splits
        dest: notify_submitted)

lemma fanout_submitted:
  "submitted_checklists (snd (fanout A users units templates cd cid h)) = submitted_checklists h"
proof -
  let ?tech = "find (\<lambda>u. u_id u = technicianId cd) users"
  let ?un = "find (\<lambda>u. unit_id u = unitId cd) units"
  let ?tp = "find (\<lambda>t. template_id t = templateId cd) templates"
  obtain r1 h1 where s1: "notify_unit_manager A ?tech ?un ?tp cid h = (r1, h1)"
    by (cases "notify_unit_manager A ?tech ?un ?tp cid h")
  with notify_unit_manager_submitted [of A ?tech ?un ?tp cid h]
  have a: "submitted_checklists h1 = submitted_checklists h" by simp
  show ?thesis
  proof (cases r1)
    case (Inl err)
    with s1 a show ?thesis by (simp add: fanout_def)
  next
    case (Inr N1)
    obtain r2 h2 where s2: "notify_technician_manager A ?tech ?un ?tp cid N1 h1 = (r2, h2)"
      by (cases "notify_technician_manager A ?tech ?un ?tp cid N1 h1")
    with notify_technician_manager_submitted [of A ?tech ?un ?tp cid N1 h1] a
    have b: "submitted_checklists h2 = submitted_checklists h" by simp
    from s1 s2 Inr b show ?thesis
      by (cases r2) (simp_all add: fanout_def notify_coordinators_submitted)
  qed
qed

lemma submitChecklist_recipients:
  "\<exists>evs. snd (submitChecklist A users units templates cd (s, h)) = h @ evs
     \<and> (distinct (map u_id users) \<longrightarrow> distinct (attempted_recipients evs))
     \<and> set (attempted_recipients evs) \<subseteq>
         {m. unit_manager_of (find (\<lambda>u. unit_id u = unitId cd) units) = Some m}
       \<union> {m. \<exists>t. find (\<lambda>u. u_id u = technicianId cd) users = Some t \<and> u_managerId t = Some m}
       \<union> u_id ` set (active_coordinators users)
     \<and> (currentUser s \<noteq> None \<and> has_non_conformities cd
          \<and> (\<exists>x i. SubmitChecklistToFirestore x (Inr i) \<in> set evs) \<longrightarrow>
        (\<forall>m. unit_manager_of (find (\<lambda>u. unit_id u = unitId cd) units) = Some m \<and> m \<noteq> []
            \<longrightarrow> count_list (attempted_recipients evs) m = 1))
     \<and> (currentUser s \<noteq> None \<and> has_non_conformities cd \<and> \<not> aborted evs \<longrightarrow>
          (\<exists>mgrs. attempted_recipients evs =
                     mgrs @ filter (\<lambda>i. i \<notin> set mgrs) (map u_id (active_coordinators users))
             \<and> set mgrs \<subseteq>
                 {m. unit_manager_of (find (\<lambda>u. unit_id u = unitId cd) units) = Some m}
               \<union> {m. \<exists>t. find (\<lambda>u. u_id u = technicianId cd) users = Some t \<and> u_managerId t = Some m}))"
proof (cases rule: submitChecklist_cases [of s A users units templates cd h])
  case no_user
  then show ?thesis by simp
next
  case (write_failed cu now err)
  then show ?thesis by simp
next
  case (conform cu now cid)
  then show ?thesis by simp
next
  case (fanned_out cu now cid h')
  let ?pre = "[DateNow now, SubmitChecklistToFirestore (new_completed_checklist cd now (has_non_conformities cd)) (Inr cid)]"
  from fanout_recipients [OF fanned_out(3)] obtain fe where fe: "h' = (h @ ?pre) @ fe"
    and rest: "\<not> aborted fe"
      "distinct (map u_id users) \<longrightarrow> distinct (attempted_recipients fe)"
      "set (attempted_recipients fe) \<subseteq>
         {m. unit_manager_of (find (\<lambda>u. unit_id u = unitId cd) units) = Some m}
       \<union> {m. \<exists>t. find (\<lambda>u. u_id u = technicianId cd) users = Some t \<and> u_managerId t = Some m}
       \<union> u_id ` set (active_coordinators users)"
      "\<forall>m. unit_manager_of (find (\<lambda>u. unit_id u = unitId cd) units) = Some m \<and> m \<noteq> []
            \<longrightarrow> count_list (attempted_recipients fe) m = 1"
      "\<exists>mgrs. attempted_recipients fe =
                     mgrs @ filter (\<lambda>i. i \<notin> set mgrs) (map u_id (active_coordinators users))
             \<and> set mgrs \<subseteq>
                 {m. unit_manager_of (find (\<lambda>u. unit_id u = unitId cd) units) = Some m}
               \<union> {m. \<exists>t. find (\<lambda>u. u_id u = technicianId cd) users = Some t \<and> u_managerId t = Some m}"
    by blast
  have att: "attempted_recipients (?pre @ fe) = attempted_recipients fe"
    by (simp add: attempted_recipients_def)
  from fanned_out(4) fe have run: "snd (submitChecklist A users units templates cd (s, h)) = h @ (?pre @ fe)"
    by simp
  show ?thesis
    by (rule exI [of _ "?pre @ fe"], unfold att) (use run rest in blast)
next
  case (fanout_failed cu now cid err h')
  let ?pre = "[DateNow now, SubmitChecklistToFirestore (new_completed_checklist cd now (has_non_conformities cd)) (Inr cid)]"
  let ?post = "[ConsoleErr [CStr ''Error submitting checklist:'', CErr err]]"
  from fanout_recipients [OF fanout_failed(3)] obtain fe where fe: "h' = (h @ ?pre) @ fe"
    and rest:
      "distinct (map u_id users) \<longrightarrow> distinct (attempted_recipients fe)"
      "set (attempted_recipients fe) \<subseteq>
         {m. unit_manager_of (find (\<lambda>u. unit_id u = unitId cd) units) = Some m}
       \<union> {m. \<exists>t. find (\<lambda>u. u_id u = technicianId cd) users = Some t \<and> u_managerId t = Some m}
       \<union> u_id ` set (active_coordinators users)"
      "\<forall>m. unit_manager_of (find (\<lambda>u. unit_id u = unitId cd) units) = Some m \<and> m \<noteq> []
            \<longrightarrow> count_list (attempted_recipients fe) m = 1"
    by blast
  have att: "attempted_recipients (?pre @ fe @ ?post) = attempted_recipients fe"
    by (simp add: attempted_recipients_def)
  have ab: "aborted (?pre @ fe @ ?post)" by simp
  from fanout_failed(4) fe have run: "snd (submitChecklist A users units templates cd (s, h)) = h @ (?pre @ fe @ ?post)"
    by simp
  show ?thesis
    by (rule exI [of _ "?pre @ fe @ ?post"], unfold att) (use run rest ab in blast)
qed

section \<open>Properties of the session bootstrap\<close>

lemma signOut_calls_Nil [simp]: "signOut_calls [] = []"
  by (simp add: signOut_calls_def)

lemma signOut_calls_Cons [simp]:
  "signOut_calls (e # h) = (case e of SignOut r \<Rightarrow> [r] | _ \<Rightarrow> []) @ signOut_calls h"
  by (simp add: signOut_calls_def)

lemma signOut_calls_append [simp]:
  "signOut_calls (h @ h') = signOut_calls h @ signOut_calls h'"
  by (simp add: signOut_calls_def)

lemma signOut_then_result:
  "\<exists>r evs. snd (signOut_then A after (s, h)) = h @ evs \<and> signOut_calls evs = [r]
     \<and> r = signOut A h
     \<and> authStatus (fst (signOut_then A after (s, h))) =
         (case r of Inr u \<Rightarrow> authStatus (after s) | Inl err \<Rightarrow> Unauthenticated)
     \<and> currentUser (fst (signOut_then A after (s, h))) =
         (case r of Inr u \<Rightarrow> currentUser (after s) | Inl err \<Rightarrow> currentUser s)
     \<and> activeView (fst (signOut_then A after (s, h))) =
         (case r of Inr u \<Rightarrow> activeView (after s) | Inl err \<Rightarrow> activeView s)"
  by (cases "signOut A h") (simp_all add: signOut_then_def Let_def)

section \<open>The claims\<close>

lemmas ex_defs = ex_user_def ex_env_def ex_unit_def ex_checklist_def ex_state_def ex_users_def
  ex_users_overlap_def

lemmas run_defs = submitChecklist_def fanout_def notify_unit_manager_def
  notify_technician_manager_def notify_def active_coordinators_def unit_manager_of_def
  has_non_conformities_def new_completed_checklist_def Let_def

lemmas auth_defs = ex_firebase_user_def ex_loading_def ex_auth_env_def ex_user_def ex_state_def

lemmas handler_defs = onAuthStateChanged_handler_def provision_profile_def signOut_then_def
  displayName_of_def with_id_def Let_def

lemmas sdk_defs = ex_sdk_def ex_patch_def ex_new_user_def ex_feed_def

lemmas svc_defs = FirestoreService_add_def FirestoreService_update_def FirestoreService_delete_def
  strip_undefined_def assign_prop_def Let_def

text \<open>
  C1. For every submission, whatever the hooks answer: when the cached users have distinct
  ids, no recipient has two notifications attempted, hence none has two created; every
  recipient is the \<^verbatim>\<open>managerId\<close> of the unit, the \<^verbatim>\<open>managerId\<close> of the technician, or the
  id of a coordinator whose \<^verbatim>\<open>active\<close> is not \<^verbatim>\<open>false\<close>. When the checklist has a
  non-conformity and was stored, and one id is the unit's manager, the technician's manager
  and an active coordinator at once, exactly one notification is attempted for that id, and
  exactly one is created when that call does not throw.
\<close>
theorem fanout_at_most_once:
  assumes "distinct (map u_id users)"
  shows "\<exists>evs. snd (submitChecklist A users units templates cd (s, h)) = h @ evs
     \<and> distinct (attempted_recipients evs)
     \<and> distinct (created_recipients evs)
     \<and> set (created_recipients evs) \<subseteq> set (attempted_recipients evs)
     \<and> set (attempted_recipients evs) \<subseteq>
         {m. unit_manager_of (find (\<lambda>u. unit_id u = unitId cd) units) = Some m}
       \<union> {m. \<exists>t. find (\<lambda>u. u_id u = technicianId cd) users = Some t \<and> u_managerId t = Some m}
       \<union> {u_id c | c. c \<in> set users \<and> u_role c = COORDINATOR \<and> u_active c \<noteq> Some False}
     \<and> (\<forall>m. currentUser s \<noteq> None \<and> has_non_conformities cd
            \<and> (\<exists>x i. SubmitChecklistToFirestore x (Inr i) \<in> set evs)
            \<and> m \<noteq> [] \<and> unit_manager_of (find (\<lambda>u. unit_id u = unitId cd) units) = Some m
            \<and> (\<exists>t. find (\<lambda>u. u_id u = technicianId cd) users = Some t \<and> u_managerId t = Some m)
            \<and> (\<exists>c. c \<in> set users \<and> u_role c = COORDINATOR \<and> u_active c \<noteq> Some False \<and> u_id c = m)
          \<longrightarrow> count_list (attempted_recipients evs) m = 1
            \<and> ((\<forall>e. (m, Inl e) \<notin> set (notification_calls evs))
                 \<longrightarrow> count_list (created_recipients evs) m = 1))"
proof -
  have coord: "u_id ` set (active_coordinators users) =
      {u_id c | c. c \<in> set users \<and> u_role c = COORDINATOR \<and> u_active c \<noteq> Some False}"
    by (auto simp: active_coordinators_def)
  from submitChecklist_recipients [of A users units templates cd s h] obtain evs where
    run: "snd (submitChecklist A users units templates cd (s, h)) = h @ evs"
    and d: "distinct (map u_id users) \<longrightarrow> distinct (attempted_recipients evs)"
    and sub: "set (attempted_recipients evs) \<subseteq>
         {m. unit_manager_of (find (\<lambda>u. unit_id u = unitId cd) units) = Some m}
       \<union> {m. \<exists>t. find (\<lambda>u. u_id u = technicianId cd) users = Some t \<and> u_managerId t = Some m}
       \<union> u_id ` set (active_coordinators users)"
    and cnt: "currentUser s \<noteq> None \<and> has_non_conformities cd
          \<and> (\<exists>x i. SubmitChecklistToFirestore x (Inr i) \<in> set evs) \<longrightarrow>
        (\<forall>m. unit_manager_of (find (\<lambda>u. unit_id u = unitId cd) units) = Some m \<and> m \<noteq> []
            \<longrightarrow> count_list (attempted_recipients evs) m = 1)"
    by blast
  from d assms have d1: "distinct (attempted_recipients evs)" by simp
  then have d2: "distinct (created_recipients evs)" by (rule distinct_created)
  have one: "\<forall>m. currentUser s \<noteq> None \<and> has_non_conformities cd
            \<and> (\<exists>x i. SubmitChecklistToFirestore x (Inr i) \<in> set evs)
            \<and> m \<noteq> [] \<and> unit_manager_of (find (\<lambda>u. unit_id u = unitId cd) units) = Some m
            \<and> (\<exists>t. find (\<lambda>u. u_id u = technicianId cd) users = Some t \<and> u_managerId t = Some m)
            \<and> (\<exists>c. c \<in> set users \<and> u_role c = COORDINATOR \<and> u_active c \<noteq> Some False \<and> u_id c = m)
          \<longrightarrow> count_list (attempted_recipients evs) m = 1
            \<and> ((\<forall>e. (m, Inl e) \<notin> set (notification_calls evs))
                 \<longrightarrow> count_list (created_recipients evs) m = 1)"
  proof (intro allI impI, elim conjE)
    fix m
    assume a: "currentUser s \<noteq> None" "has_non_conformities cd"
      "\<exists>x i. SubmitChecklistToFirestore x (Inr i) \<in> set evs" "m \<noteq> []"
      "unit_manager_of (find (\<lambda>u. unit_id u = unitId cd) units) = Some m"
    with cnt have c1: "count_list (attempted_recipients evs) m = 1" by blast
    show "count_list (attempted_recipients evs) m = 1
            \<and> ((\<forall>e. (m, Inl e) \<notin> set (notification_calls evs))
                 \<longrightarrow> count_list (created_recipients evs) m = 1)"
      using c1 count_created [of m evs] by simp
  qed
  from run d1 d2 created_subset_attempted [of evs] sub one show ?thesis
    unfolding coord by (intro exI [of _ evs] conjI)
qed

theorem fanout_at_most_once_witness:
  "distinct (map u_id ex_users_overlap)
   \<and> attempted_recipients
       (snd (submitChecklist (ex_env []) ex_users_overlap [ex_unit] [] ex_checklist (ex_state, [])))
     = [''M1'', ''C2'']
   \<and> distinct (attempted_recipients
       (snd (submitChecklist (ex_env []) ex_users_overlap [ex_unit] [] ex_checklist (ex_state, []))))
   \<and> count_list (created_recipients
       (snd (submitChecklist (ex_env []) ex_users_overlap [ex_unit] [] ex_checklist (ex_state, [])))) ''M1'' = 1"
proof -
  have d: "distinct (map u_id ex_users_overlap)"
    by (simp add: ex_defs)
  have run: "notification_calls
       (snd (submitChecklist (ex_env []) ex_users_overlap [ex_unit] [] ex_checklist (ex_state, [])))
     = [(''M1'', Inr ''n1''), (''C2'', Inr ''n1'')]"
    by (simp add: ex_defs run_defs)
  from fanout_at_most_once [OF d, of "ex_env []" "[ex_unit]" "[]" ex_checklist ex_state "[]"]
  obtain evs where
    evs: "snd (submitChecklist (ex_env []) ex_users_overlap [ex_unit] [] ex_checklist (ex_state, [])) = [] @ evs"
    and dist: "distinct (attempted_recipients evs)"
    by blast
  from evs dist d run show ?thesis
    by (simp add: attempted_recipients_def created_recipients_def)
qed

text \<open>
  The coordinators on a submission that runs to its end. When a checklist with a
  non-conformity is submitted and the submission is not left
  through the outer \<^verbatim>\<open>catch\<close>, the recipients are first the managers that were notified
  and then, in the order of the cached users, every user with role \<^verbatim>\<open>COORDINATOR\<close> and
  \<^verbatim>\<open>active\<close> other than \<^verbatim>\<open>false\<close> that is not among these managers. So a notification is
  attempted for every such coordinator, and it is created unless the call for that
  coordinator throws.
\<close>
theorem coordinators_are_candidates:
  "\<exists>evs. snd (submitChecklist A users units templates cd (s, h)) = h @ evs
     \<and> (currentUser s \<noteq> None \<and> has_non_conformities cd \<and> \<not> aborted evs \<longrightarrow>
          (\<exists>mgrs.
              attempted_recipients evs =
                mgrs @ filter (\<lambda>i. i \<notin> set mgrs)
                         (map u_id (filter (\<lambda>u. u_role u = COORDINATOR \<and> u_active u \<noteq> Some False) users))
            \<and> set mgrs \<subseteq>
                {m. unit_manager_of (find (\<lambda>u. unit_id u = unitId cd) units) = Some m}
              \<union> {m. \<exists>t. find (\<lambda>u. u_id u = technicianId cd) users = Some t \<and> u_managerId t = Some m})
        \<and> (\<forall>c \<in> set users. u_role c = COORDINATOR \<and> u_active c \<noteq> Some False \<longrightarrow>
              u_id c \<in> set (attempted_recipients evs)
            \<and> ((\<forall>e. (u_id c, Inl e) \<notin> set (notification_calls evs))
                 \<longrightarrow> u_id c \<in> set (created_recipients evs))))"
proof -
  from submitChecklist_recipients [of A users units templates cd s h] obtain evs where
    run: "snd (submitChecklist A users units templates cd (s, h)) = h @ evs"
    and full: "currentUser s \<noteq> None \<and> has_non_conformities cd \<and> \<not> aborted evs \<longrightarrow>
          (\<exists>mgrs. attempted_recipients evs =
                     mgrs @ filter (\<lambda>i. i \<notin> set mgrs) (map u_id (active_coordinators users))
             \<and> set mgrs \<subseteq>
                 {m. unit_manager_of (find (\<lambda>u. unit_id u = unitId cd) units) = Some m}
               \<union> {m. \<exists>t. find (\<lambda>u. u_id u = technicianId cd) users = Some t \<and> u_managerId t = Some m})"
    by blast
  have "currentUser s \<noteq> None \<and> has_non_conformities cd \<and> \<not> aborted evs \<longrightarrow>
          (\<exists>mgrs.
              attempted_recipients evs =
                mgrs @ filter (\<lambda>i. i \<notin> set mgrs)
                         (map u_id (filter (\<lambda>u. u_role u = COORDINATOR \<and> u_active u \<noteq> Some False) users))
            \<and> set mgrs \<subseteq>
                {m. unit_manager_of (find (\<lambda>u. unit_id u = unitId cd) units) = Some m}
              \<union> {m. \<exists>t. find (\<lambda>u. u_id u = technicianId cd) users = Some t \<and> u_managerId t = Some m})
        \<and> (\<forall>c \<in> set users. u_role c = COORDINATOR \<and> u_active c \<noteq> Some False \<longrightarrow>
              u_id c \<in> set (attempted_recipients evs)
            \<and> ((\<forall>e. (u_id c, Inl e) \<notin> set (notification_calls evs))
                 \<longrightarrow> u_id c \<in> set (created_recipients evs)))"
  proof (intro impI)
    assume "currentUser s \<noteq> None \<and> has_non_conformities cd \<and> \<not> aborted evs"
    with full obtain mgrs where
      att: "attempted_recipients evs =
              mgrs @ filter (\<lambda>i. i \<notin> set mgrs) (map u_id (active_coordinators users))"
      and sub: "set mgrs \<subseteq>
                 {m. unit_manager_of (find (\<lambda>u. unit_id u = unitId cd) units) = Some m}
               \<union> {m. \<exists>t. find (\<lambda>u. u_id u = technicianId cd) users = Some t \<and> u_managerId t = Some m}"
      by blast
    have mem: "\<forall>c \<in> set users. u_role c = COORDINATOR \<and> u_active c \<noteq> Some False \<longrightarrow>
              u_id c \<in> set (attempted_recipients evs)
            \<and> ((\<forall>e. (u_id c, Inl e) \<notin> set (notification_calls evs))
                 \<longrightarrow> u_id c \<in> set (created_recipients evs))"
    proof (intro ballI impI)
      fix c assume c: "c \<in> set users" "u_role c = COORDINATOR \<and> u_active c \<noteq> Some False"
      then have "c \<in> set (active_coordinators users)"
        by (simp add: active_coordinators_def)
      then have a: "u_id c \<in> set (attempted_recipients evs)"
        unfolding att by auto
      show "u_id c \<in> set (attempted_recipients evs)
            \<and> ((\<forall>e. (u_id c, Inl e) \<notin> set (notification_calls evs))
                 \<longrightarrow> u_id c \<in> set (created_recipients evs))"
        using a attempted_created [of "u_id c" evs] by blast
    qed
    from att sub mem show "(\<exists>mgrs.
              attempted_recipients evs =
                mgrs @ filter (\<lambda>i. i \<notin> set mgrs)
                         (map u_id (filter (\<lambda>u. u_role u = COORDINATOR \<and> u_active u \<noteq> Some False) users))
            \<and> set mgrs \<subseteq>
                {m. unit_manager_of (find (\<lambda>u. unit_id u = unitId cd) units) = Some m}
              \<union> {m. \<exists>t. find (\<lambda>u. u_id u = technicianId cd) users = Some t \<and> u_managerId t = Some m})
        \<and> (\<forall>c \<in> set users. u_role c = COORDINATOR \<and> u_active c \<noteq> Some False \<longrightarrow>
              u_id c \<in> set (attempted_recipients evs)
            \<and> ((\<forall>e. (u_id c, Inl e) \<notin> set (notification_calls evs))
                 \<longrightarrow> u_id c \<in> set (created_recipients evs)))"
      unfolding active_coordinators_def by blast
  qed
  with run show ?thesis by blast
qed

theorem coordinators_are_candidates_witness:
  "currentUser ex_state \<noteq> None \<and> has_non_conformities ex_checklist
   \<and> \<not> aborted (snd (submitChecklist (ex_env [''C2'']) ex_users [ex_unit] [] ex_checklist (ex_state, [])))
   \<and> attempted_recipients
       (snd (submitChecklist (ex_env [''C2'']) ex_users [ex_unit] [] ex_checklist (ex_state, [])))
     = [''M1'', ''M2'', ''C2'', ''C4'']
   \<and> created_recipients
       (snd (submitChecklist (ex_env [''C2'']) ex_users [ex_unit] [] ex_checklist (ex_state, [])))
     = [''M1'', ''M2'', ''C4'']
   \<and> ''C2'' \<in> set (attempted_recipients
       (snd (submitChecklist (ex_env [''C2'']) ex_users [ex_unit] [] ex_checklist (ex_state, []))))"
proof -
  let ?run = "snd (submitChecklist (ex_env [''C2'']) ex_users [ex_unit] [] ex_checklist (ex_state, []))"
  have pre: "currentUser ex_state \<noteq> None" "has_non_conformities ex_checklist"
    by (simp_all add: ex_defs has_non_conformities_def)
  have calls: "notification_calls ?run
     = [(''M1'', Inr ''n1''), (''M2'', Inr ''n1''), (''C2'', Inl (JsError ''unavailable'')),
        (''C4'', Inr ''n1'')]"
    by (simp add: ex_defs run_defs)
  have na: "\<not> aborted ?run"
    by (simp add: ex_defs run_defs)
  have c2: "ex_user ''C2'' COORDINATOR None (Some True) \<in> set ex_users"
    by (simp add: ex_defs)
  from coordinators_are_candidates [of "ex_env [''C2'']" ex_users "[ex_unit]" "[]" ex_checklist ex_state "[]"]
  obtain evs where
    evs: "?run = [] @ evs"
    and mem: "currentUser ex_state \<noteq> None \<and> has_non_conformities ex_checklist \<and> \<not> aborted evs \<longrightarrow>
        (\<forall>c \<in> set ex_users. u_role c = COORDINATOR \<and> u_active c \<noteq> Some False \<longrightarrow>
              u_id c \<in> set (attempted_recipients evs))"
    by blast
  from evs na pre mem c2 have "''C2'' \<in> set (attempted_recipients ?run)"
    by (auto simp: ex_user_def)
  with pre na calls show ?thesis
    by (simp add: attempted_recipients_def created_recipients_def)
qed

text \<open>
  C2. The code at a store with unit manager \<open>M1\<close>, technician's manager \<open>M2\<close> and the
  coordinators \<open>M1\<close>, \<open>C2\<close>, \<open>C4\<close>, none of them deactivated, when the write for \<open>M2\<close>
  throws. The coordinators \<open>C2\<close> and \<open>C4\<close> were not notified before and are never
  considered: the only attempts are those for \<open>M1\<close> and \<open>M2\<close>, and the submission ends in the
  outer \<^verbatim>\<open>catch\<close>. With no failing write the same coordinators are attempted.
\<close>

theorem manager_write_failure_skips_coordinators:
  "map u_id (active_coordinators ex_users) = [''M1'', ''C2'', ''C4'']
   \<and> has_non_conformities ex_checklist
   \<and> attempted_recipients
       (snd (submitChecklist (ex_env [''M2'']) ex_users [ex_unit] [] ex_checklist (ex_state, [])))
     = [''M1'', ''M2'']
   \<and> created_recipients
       (snd (submitChecklist (ex_env [''M2'']) ex_users [ex_unit] [] ex_checklist (ex_state, [])))
     = [''M1'']
   \<and> ''C2'' \<notin> set (attempted_recipients
       (snd (submitChecklist (ex_env [''M2'']) ex_users [ex_unit] [] ex_checklist (ex_state, []))))
   \<and> ''C4'' \<notin> set (attempted_recipients
       (snd (submitChecklist (ex_env [''M2'']) ex_users [ex_unit] [] ex_checklist (ex_state, []))))
   \<and> aborted (snd (submitChecklist (ex_env [''M2'']) ex_users [ex_unit] [] ex_checklist (ex_state, [])))
   \<and> created_recipients
       (snd (submitChecklist (ex_env []) ex_users [ex_unit] [] ex_checklist (ex_state, [])))
     = [''M1'', ''M2'', ''C2'', ''C4'']"
  by (simp add: ex_defs run_defs attempted_recipients_def created_recipients_def)

text \<open>
  C3. The code at a store with unit manager \<open>M1\<close>, technician's manager \<open>M2\<close> and
  coordinators \<open>M1\<close>, \<open>C2\<close>, \<open>C4\<close>. When the write for \<open>M1\<close> throws, nothing is attempted
  for \<open>M2\<close>, \<open>C2\<close> or \<open>C4\<close>: the submission ends in the outer \<^verbatim>\<open>catch\<close> and the view does
  not change. When the write for \<open>M2\<close> throws, the coordinators are not attempted. Only a
  coordinator's failure (\<open>C2\<close>) is caught on its own: \<open>C4\<close> is still notified.
\<close>
theorem manager_write_failure_aborts_fanout:
  "attempted_recipients
     (snd (submitChecklist (ex_env [''M1'']) ex_users [ex_unit] [] ex_checklist (ex_state, [])))
   = [''M1'']
   \<and> created_recipients
     (snd (submitChecklist (ex_env [''M1'']) ex_users [ex_unit] [] ex_checklist (ex_state, [])))
   = []
   \<and> aborted (snd (submitChecklist (ex_env [''M1'']) ex_users [ex_unit] [] ex_checklist (ex_state, [])))
   \<and> activeView (fst (submitChecklist (ex_env [''M1'']) ex_users [ex_unit] [] ex_checklist (ex_state, [])))
     = Dashboard
   \<and> attempted_recipients
     (snd (submitChecklist (ex_env [''M2'']) ex_users [ex_unit] [] ex_checklist (ex_state, [])))
   = [''M1'', ''M2'']
   \<and> attempted_recipients
     (snd (submitChecklist (ex_env [''C2'']) ex_users [ex_unit] [] ex_checklist (ex_state, [])))
   = [''M1'', ''M2'', ''C2'', ''C4'']
   \<and> created_recipients
     (snd (submitChecklist (ex_env [''C2'']) ex_users [ex_unit] [] ex_checklist (ex_state, [])))
   = [''M1'', ''M2'', ''C4'']
   \<and> attempted_recipients
     (snd (submitChecklist (ex_env []) ex_users [ex_unit] [] ex_checklist (ex_state, [])))
   = [''M1'', ''M2'', ''C2'', ''C4'']"
  by (simp add: ex_defs run_defs attempted_recipients_def created_recipients_def)

text \<open>
  C4, as amended. For every cache of \<^verbatim>\<open>useFirestoreCollection\<close>, \<^verbatim>\<open>add\<close>, \<^verbatim>\<open>update\<close> and
  \<^verbatim>\<open>remove\<close> leave the snapshot \<^verbatim>\<open>data\<close> as it is, whatever the store answers, and so do the
  subscribing effect and an error of the channel; the snapshot is what the subscription
  callback last delivered. Each of the three hands the call to the store adapter and
  returns or rethrows what the adapter answers; \<^verbatim>\<open>loading\<close> is untouched and \<^verbatim>\<open>error\<close> is set
  to the message exactly when the adapter throws. In \<^verbatim>\<open>useNotifications\<close>, \<^verbatim>\<open>createNotification\<close> leaves the
  snapshot as it is, and \<^verbatim>\<open>markAsRead\<close> does so when the remote update throws; when the
  remote update succeeds, \<^verbatim>\<open>markAsRead\<close> itself sets \<^verbatim>\<open>read: true\<close> on the entries of the
  local snapshot whose id is the acknowledged one.
\<close>

theorem mutations_and_the_snapshot:
  "data (fst (snd (add E coll item (c, h)))) = data c
   \<and> data (fst (snd (update E coll docId item (c, h)))) = data c
   \<and> data (fst (snd (remove E coll docId (c, h)))) = data c
   \<and> data (fst (useFirestoreCollection_effect E coll (c, h))) = data c
   \<and> data (fst (useFirestoreCollection_listener (SnapshotError err) (c, h))) = data c
   \<and> data (fst (useFirestoreCollection_listener (SnapshotNext docs) (c, h))) = map doc_entity docs
   \<and> notifications (fst (snd (useNotifications_createNotification E item (n, h)))) = notifications n
   \<and> notifications (fst (snd (markAsRead E notificationId (n, h)))) =
       (case fst (markAsRead E notificationId (n, h)) of
          Inl e \<Rightarrow> notifications n
        | Inr u \<Rightarrow>
            map (\<lambda>x. if obj_get x ''id'' = JStr notificationId
                      then AList.update ''read'' (JBool True) x else x)
              (notifications n))
   \<and> (fst (add E coll item (c, h)), snd (snd (add E coll item (c, h))))
       = FirestoreService_add E coll item h
   \<and> (fst (update E coll docId item (c, h)), snd (snd (update E coll docId item (c, h))))
       = FirestoreService_update E coll docId item h
   \<and> (fst (remove E coll docId (c, h)), snd (snd (remove E coll docId (c, h))))
       = FirestoreService_delete E coll docId h
   \<and> (fst (useNotifications_createNotification E item (n, h)),
        snd (snd (useNotifications_createNotification E item (n, h))))
       = FirestoreService_add E ''notifications'' item h
   \<and> (fst (markAsRead E notificationId (n, h)), snd (snd (markAsRead E notificationId (n, h))))
       = FirestoreService_update E ''notifications'' notificationId [(''read'', JBool True)] h
   \<and> loading (fst (snd (add E coll item (c, h)))) = loading c
   \<and> loading (fst (snd (update E coll docId item (c, h)))) = loading c
   \<and> loading (fst (snd (remove E coll docId (c, h)))) = loading c
   \<and> error (fst (snd (add E coll item (c, h)))) =
       (case fst (add E coll item (c, h)) of Inl e \<Rightarrow> Some (message e) | Inr i \<Rightarrow> error c)
   \<and> error (fst (snd (update E coll docId item (c, h)))) =
       (case fst (update E coll docId item (c, h)) of Inl e \<Rightarrow> Some (message e) | Inr u \<Rightarrow> error c)
   \<and> error (fst (snd (remove E coll docId (c, h)))) =
       (case fst (remove E coll docId (c, h)) of Inl e \<Rightarrow> Some (message e) | Inr u \<Rightarrow> error c)"
proof -
  have a: "data (fst (snd (add E coll item (c, h)))) = data c
      \<and> (fst (add E coll item (c, h)), snd (snd (add E coll item (c, h))))
          = FirestoreService_add E coll item h
      \<and> loading (fst (snd (add E coll item (c, h)))) = loading c
      \<and> error (fst (snd (add E coll item (c, h)))) =
          (case fst (add E coll item (c, h)) of Inl e \<Rightarrow> Some (message e) | Inr i \<Rightarrow> error c)"
    by (cases "FirestoreService_add E coll item h"; cases "fst (FirestoreService_add E coll item h)")
       (simp_all add: add_def)
  have u: "data (fst (snd (update E coll docId item (c, h)))) = data c
      \<and> (fst (update E coll docId item (c, h)), snd (snd (update E coll docId item (c, h))))
          = FirestoreService_update E coll docId item h
      \<and> loading (fst (snd (update E coll docId item (c, h)))) = loading c
      \<and> error (fst (snd (update E coll docId item (c, h)))) =
          (case fst (update E coll docId item (c, h)) of Inl e \<Rightarrow> Some (message e) | Inr u \<Rightarrow> error c)"
    by (cases "FirestoreService_update E coll docId item h";
        cases "fst (FirestoreService_update E coll docId item h)")
       (simp_all add: update_def)
  have r: "data (fst (snd (remove E coll docId (c, h)))) = data c
      \<and> (fst (remove E coll docId (c, h)), snd (snd (remove E coll docId (c, h))))
          = FirestoreService_delete E coll docId h
      \<and> loading (fst (snd (remove E coll docId (c, h)))) = loading c
      \<and> error (fst (snd (remove E coll docId (c, h)))) =
          (case fst (remove E coll docId (c, h)) of Inl e \<Rightarrow> Some (message e) | Inr u \<Rightarrow> error c)"
    by (cases "FirestoreService_delete E coll docId h";
        cases "fst (FirestoreService_delete E coll docId h)")
       (simp_all add: remove_def)
  have l: "data (fst (useFirestoreCollection_effect E coll (c, h))) = data c
      \<and> data (fst (useFirestoreCollection_listener (SnapshotError err) (c, h))) = data c
      \<and> data (fst (useFirestoreCollection_listener (SnapshotNext docs) (c, h))) = map doc_entity docs"
    by (auto simp: useFirestoreCollection_effect_def useFirestoreCollection_listener_def
          FirestoreService_onSnapshot_listener_def useFirestoreCollection_callback_def
          split: prod.splits sum.splits)
  have cn: "notifications (fst (snd (useNotifications_createNotification E item (n, h)))) = notifications n
      \<and> (fst (useNotifications_createNotification E item (n, h)),
           snd (snd (useNotifications_createNotification E item (n, h))))
          = FirestoreService_add E ''notifications'' item h"
    by (cases "FirestoreService_add E ''notifications'' item h";
        cases "fst (FirestoreService_add E ''notifications'' item h)")
       (simp_all add: useNotifications_createNotification_def)
  have m: "notifications (fst (snd (markAsRead E notificationId (n, h)))) =
       (case fst (markAsRead E notificationId (n, h)) of
          Inl e \<Rightarrow> notifications n
        | Inr u \<Rightarrow>
            map (\<lambda>x. if obj_get x ''id'' = JStr notificationId
                      then AList.update ''read'' (JBool True) x else x)
              (notifications n))
      \<and> (fst (markAsRead E notificationId (n, h)), snd (snd (markAsRead E notificationId (n, h))))
          = FirestoreService_update E ''notifications'' notificationId [(''read'', JBool True)] h"
    by (cases "FirestoreService_update E ''notifications'' notificationId [(''read'', JBool True)] h";
        cases "fst (FirestoreService_update E ''notifications'' notificationId [(''read'', JBool True)] h)")
       (simp_all add: markAsRead_def)
  from a u r l cn m show ?thesis by simp
qed

text \<open>
  C4 as stated fails for the read-acknowledgement: on a feed with the unread notification
  \<open>n1\<close>, \<^verbatim>\<open>markAsRead\<close> returns with a snapshot that differs from the one it started with,
  and no subscription callback has run.
\<close>

theorem markAsRead_modifies_the_snapshot:
  "fst (markAsRead ex_sdk ''n1'' (ex_feed, [])) = Inr ()
   \<and> notifications (fst (snd (markAsRead ex_sdk ''n1'' (ex_feed, [])))) =
       [[(''id'', JStr ''n1''), (''userId'', JStr ''M1''), (''read'', JBool True)]]
   \<and> notifications (fst (snd (markAsRead ex_sdk ''n1'' (ex_feed, [])))) \<noteq> notifications ex_feed"
  by (simp add: markAsRead_def svc_defs sdk_defs obj_get_def)

text \<open>
  The deactivated-account branch in general. A sign-in event with a non-empty email for
  which the lookup finds a user whose
  \<^verbatim>\<open>active\<close> is \<^verbatim>\<open>false\<close>: the handler calls \<^verbatim>\<open>signOut\<close> exactly once and ends with the
  status \<^verbatim>\<open>unauthenticated\<close>, whatever \<^verbatim>\<open>signOut\<close> answers. No profile is set at the end
  when the \<^verbatim>\<open>signOut\<close> call returns, and also when none was set before.
\<close>

theorem deactivated_account_gate:
  assumes "fb_email fu = Some em" and "em \<noteq> []"
      and "getUserByEmailAddress A h em = Some au" and "u_active au = Some False"
  shows "authStatus (fst (onAuthStateChanged_handler A (Some fu) (s, h))) = Unauthenticated
     \<and> (\<exists>evs r. snd (onAuthStateChanged_handler A (Some fu) (s, h)) = h @ evs
           \<and> signOut_calls evs = [r]
           \<and> (r = Inr () \<longrightarrow> currentUser (fst (onAuthStateChanged_handler A (Some fu) (s, h))) = None))
     \<and> (currentUser s = None \<longrightarrow>
           currentUser (fst (onAuthStateChanged_handler A (Some fu) (s, h))) = None)"
proof -
  let ?w = "ConsoleWarn [CStr ''Authenticated Firebase user is deactivated in Firestore, signing out.'']"
  let ?h2 = "h @ [GetUserByEmailAddress em (Some au), ?w]"
  let ?after = "\<lambda>s. s\<lparr>currentUser := None, authStatus := Unauthenticated\<rparr>"
  have run: "onAuthStateChanged_handler A (Some fu) (s, h) = signOut_then A ?after (s, ?h2)"
    using assms by (simp add: onAuthStateChanged_handler_def Let_def)
  from signOut_then_result [of A ?after s ?h2] obtain r evs where
    e: "snd (signOut_then A ?after (s, ?h2)) = ?h2 @ evs" "signOut_calls evs = [r]"
    and st: "authStatus (fst (signOut_then A ?after (s, ?h2))) =
         (case r of Inr u \<Rightarrow> authStatus (?after s) | Inl err \<Rightarrow> Unauthenticated)"
    and cu: "currentUser (fst (signOut_then A ?after (s, ?h2))) =
         (case r of Inr u \<Rightarrow> currentUser (?after s) | Inl err \<Rightarrow> currentUser s)"
    by blast
  have a: "authStatus (fst (onAuthStateChanged_handler A (Some fu) (s, h))) = Unauthenticated"
    using st run by (cases r) simp_all
  have b: "snd (onAuthStateChanged_handler A (Some fu) (s, h)) = h @ ([GetUserByEmailAddress em (Some au), ?w] @ evs)"
    using e run by simp
  have c: "signOut_calls ([GetUserByEmailAddress em (Some au), ?w] @ evs) = [r]"
    using e by simp
  have d: "r = Inr () \<longrightarrow> currentUser (fst (onAuthStateChanged_handler A (Some fu) (s, h))) = None"
    using cu run by simp
  have f: "currentUser s = None \<longrightarrow>
           currentUser (fst (onAuthStateChanged_handler A (Some fu) (s, h))) = None"
    using cu run by (cases r) simp_all
  from a b c d f show ?thesis by blast
qed

theorem deactivated_account_gate_witness:
  "fb_email ex_firebase_user = Some ''ana@example.com''
   \<and> u_active (ex_user ''D'' MANAGER None (Some False)) = Some False
   \<and> authStatus (fst (onAuthStateChanged_handler
         (ex_auth_env (Some (ex_user ''D'' MANAGER None (Some False))) (Inr ''u1'') (Inr ()))
         (Some ex_firebase_user) (ex_state, []))) = Unauthenticated
   \<and> currentUser (fst (onAuthStateChanged_handler
         (ex_auth_env (Some (ex_user ''D'' MANAGER None (Some False))) (Inr ''u1'') (Inr ()))
         (Some ex_firebase_user) (ex_state, []))) = None
   \<and> signOut_calls (snd (onAuthStateChanged_handler
         (ex_auth_env (Some (ex_user ''D'' MANAGER None (Some False))) (Inr ''u1'') (Inr ()))
         (Some ex_firebase_user) (ex_state, []))) = [Inr ()]"
proof -
  let ?A = "ex_auth_env (Some (ex_user ''D'' MANAGER None (Some False))) (Inr ''u1'') (Inr ())"
  have 1: "fb_email ex_firebase_user = Some ''ana@example.com''"
    by (simp add: auth_defs)
  have 2: "''ana@example.com'' \<noteq> []" by simp
  have 3: "getUserByEmailAddress ?A [] ''ana@example.com'' = Some (ex_user ''D'' MANAGER None (Some False))"
    by (simp add: ex_auth_env_def)
  have 4: "u_active (ex_user ''D'' MANAGER None (Some False)) = Some False"
    by (simp add: ex_user_def)
  have st: "authStatus (fst (onAuthStateChanged_handler ?A (Some ex_firebase_user) (ex_state, []))) = Unauthenticated"
    using deactivated_account_gate [OF 1 2 3 4, of ex_state] by (elim conjE)
  have rest: "currentUser (fst (onAuthStateChanged_handler ?A (Some ex_firebase_user) (ex_state, []))) = None
     \<and> signOut_calls (snd (onAuthStateChanged_handler ?A (Some ex_firebase_user) (ex_state, []))) = [Inr ()]"
    by (simp add: auth_defs handler_defs)
  from 1 4 st rest show ?thesis by simp
qed

text \<open>
  C5. The code at a sign-in event for a deactivated user that arrives while the profile
  of \<open>T\<close> is set, when \<^verbatim>\<open>signOut\<close> throws: the outer \<^verbatim>\<open>catch\<close> sets the status to
  \<^verbatim>\<open>unauthenticated\<close> and leaves the profile of \<open>T\<close> in place. When \<^verbatim>\<open>signOut\<close> returns, the
  same event clears the profile.
\<close>

theorem signOut_failure_keeps_the_profile:
  "currentUser ex_state = Some (ex_user ''T'' TECHNICIAN (Some ''M2'') None)
   \<and> u_active (ex_user ''D'' MANAGER None (Some False)) = Some False
   \<and> onAuthStateChanged_handler
         (ex_auth_env (Some (ex_user ''D'' MANAGER None (Some False))) (Inr ''u1'')
            (Inl (JsError ''network-request-failed'')))
         (Some ex_firebase_user) (ex_state, [])
     = (\<lparr>activeView = Dashboard,
          currentUser = Some (ex_user ''T'' TECHNICIAN (Some ''M2'') None),
          authStatus = Unauthenticated\<rparr>,
        [GetUserByEmailAddress ''ana@example.com'' (Some (ex_user ''D'' MANAGER None (Some False))),
         ConsoleWarn [CStr ''Authenticated Firebase user is deactivated in Firestore, signing out.''],
         SignOut (Inl (JsError ''network-request-failed'')),
         ConsoleErr [CStr ''Error fetching user:'', CErr (JsError ''network-request-failed'')]])
   \<and> currentUser (fst (onAuthStateChanged_handler
         (ex_auth_env (Some (ex_user ''D'' MANAGER None (Some False))) (Inr ''u1'') (Inr ()))
         (Some ex_firebase_user) (ex_state, []))) = None"
  by (simp add: auth_defs handler_defs)

text \<open>
  C6. A sign-in event with a non-empty email for which the lookup finds no user: the
  handler calls \<^verbatim>\<open>createUserInFirestore\<close> once, with a profile that has the display name,
  that email, the role \<^verbatim>\<open>MANAGER\<close> and nothing else. When the call returns an id, the
  status is \<^verbatim>\<open>authenticated\<close> and the profile is the one the second lookup by email finds, or
  the new profile with the returned id when that lookup finds none. When the call throws, the handler
  calls \<^verbatim>\<open>signOut\<close> once, creates nothing more and ends with the status
  \<^verbatim>\<open>unauthenticated\<close>.
\<close>

theorem auto_provisioning:
  assumes "fb_email fu = Some em" and "em \<noteq> []"
      and "getUserByEmailAddress A h em = None"
  shows "\<exists>d r evs.
       snd (onAuthStateChanged_handler A (Some fu) (s, h))
         = h @ GetUserByEmailAddress em None # CreateUserInFirestore d r # evs
     \<and> d = \<lparr>u_name = displayName_of fu em, u_email = em, u_role = MANAGER, u_unitId = None,
             u_managerId = None, u_active = None, u_authUid = None\<rparr>
     \<and> r = createUserInFirestore A (h @ [GetUserByEmailAddress em None]) d
     \<and> (case r of
          Inr newId \<Rightarrow>
            authStatus (fst (onAuthStateChanged_handler A (Some fu) (s, h))) = Authenticated
          \<and> (\<exists>found. evs = [GetUserByEmailAddress em found]
               \<and> currentUser (fst (onAuthStateChanged_handler A (Some fu) (s, h)))
                   = Some (case found of Some cu \<Rightarrow> cu | None \<Rightarrow> with_id d newId))
        | Inl err \<Rightarrow>
            authStatus (fst (onAuthStateChanged_handler A (Some fu) (s, h))) = Unauthenticated
          \<and> length (signOut_calls evs) = 1
          \<and> (\<forall>e \<in> set evs. case e of CreateUserInFirestore d' r' \<Rightarrow> False | _ \<Rightarrow> True))"
proof -
  let ?d = "\<lparr>u_name = displayName_of fu em, u_email = em, u_role = MANAGER, u_unitId = None,
             u_managerId = None, u_active = None, u_authUid = None\<rparr>"
  let ?h1 = "h @ [GetUserByEmailAddress em None]"
  let ?r = "createUserInFirestore A ?h1 ?d"
  have run: "onAuthStateChanged_handler A (Some fu) (s, h) = provision_profile A fu em (s, ?h1)"
    using assms by (simp add: onAuthStateChanged_handler_def Let_def)
  show ?thesis
  proof (cases ?r)
    case (Inr newId)
    let ?found = "getUserByEmailAddress A (?h1 @ [CreateUserInFirestore ?d (Inr newId)]) em"
    show ?thesis
      apply (rule exI [of _ ?d], rule exI [of _ "Inr newId"], rule exI [of _ "[GetUserByEmailAddress em ?found]"])
      using Inr run by (cases ?found) (simp_all add: provision_profile_def Let_def)
  next
    case (Inl err)
    note cerr = this
    let ?c = "ConsoleErr [CStr ''Failed to create Firestore profile for authenticated user:'', CErr err]"
    let ?h2 = "?h1 @ [CreateUserInFirestore ?d (Inl err), ?c]"
    let ?after = "\<lambda>s. s\<lparr>authStatus := Unauthenticated\<rparr>"
    have p: "provision_profile A fu em (s, ?h1) = signOut_then A ?after (s, ?h2)"
      using Inl by (simp add: provision_profile_def Let_def)
    obtain r2 where r2: "signOut A ?h2 = r2" by simp
    show ?thesis
    proof (cases r2)
      case (Inr u)
      show ?thesis
        apply (rule exI [of _ ?d], rule exI [of _ "Inl err"], rule exI [of _ "[?c, SignOut r2]"])
        using Inr r2 run p cerr by (simp add: signOut_then_def Let_def)
    next
      case (Inl err2)
      show ?thesis
        apply (rule exI [of _ ?d], rule exI [of _ "Inl err"],
               rule exI [of _ "[?c, SignOut r2, ConsoleErr [CStr ''Error fetching user:'', CErr err2]]"])
        using Inl r2 run p cerr by (simp add: signOut_then_def Let_def)
    qed
  qed
qed

theorem auto_provisioning_witness:
  "fb_email ex_firebase_user = Some ''ana@example.com''
   \<and> onAuthStateChanged_handler (ex_auth_env None (Inr ''u1'') (Inr ())) (Some ex_firebase_user) (ex_loading, [])
     = (\<lparr>activeView = Dashboard,
          currentUser = Some \<lparr>u_name = ''ana'', u_email = ''ana@example.com'', u_role = MANAGER,
                              u_unitId = None, u_managerId = None, u_active = None, u_authUid = None,
                              u_id = ''u1''\<rparr>,
          authStatus = Authenticated\<rparr>,
        [GetUserByEmailAddress ''ana@example.com'' None,
         CreateUserInFirestore \<lparr>u_name = ''ana'', u_email = ''ana@example.com'', u_role = MANAGER,
                              u_unitId = None, u_managerId = None, u_active = None, u_authUid = None\<rparr>
           (Inr ''u1''),
         GetUserByEmailAddress ''ana@example.com'' None])
   \<and> authStatus (fst (onAuthStateChanged_handler (ex_auth_env None (Inl (JsError ''denied'')) (Inr ()))
                         (Some ex_firebase_user) (ex_loading, []))) = Unauthenticated
   \<and> signOut_calls (snd (onAuthStateChanged_handler (ex_auth_env None (Inl (JsError ''denied'')) (Inr ()))
                         (Some ex_firebase_user) (ex_loading, []))) = [Inr ()]"
proof -
  let ?A = "ex_auth_env None (Inr ''u1'') (Inr ())"
  have 1: "fb_email ex_firebase_user = Some ''ana@example.com''"
    by (simp add: auth_defs)
  have 2: "''ana@example.com'' \<noteq> []" by simp
  have 3: "getUserByEmailAddress ?A [] ''ana@example.com'' = None"
    by (simp add: ex_auth_env_def)
  from auto_provisioning [OF 1 2 3, of ex_loading]
  have "\<exists>d r evs. snd (onAuthStateChanged_handler ?A (Some ex_firebase_user) (ex_loading, []))
         = [] @ GetUserByEmailAddress ''ana@example.com'' None # CreateUserInFirestore d r # evs"
    by (elim conjE exE) (intro exI, assumption)
  then obtain d r evs where
    run: "snd (onAuthStateChanged_handler ?A (Some ex_firebase_user) (ex_loading, []))
         = [] @ GetUserByEmailAddress ''ana@example.com'' None # CreateUserInFirestore d r # evs"
    by (elim exE)
  have ok: "onAuthStateChanged_handler ?A (Some ex_firebase_user) (ex_loading, [])
     = (\<lparr>activeView = Dashboard,
          currentUser = Some \<lparr>u_name = ''ana'', u_email = ''ana@example.com'', u_role = MANAGER,
                              u_unitId = None, u_managerId = None, u_active = None, u_authUid = None,
                              u_id = ''u1''\<rparr>,
          authStatus = Authenticated\<rparr>,
        [GetUserByEmailAddress ''ana@example.com'' None,
         CreateUserInFirestore \<lparr>u_name = ''ana'', u_email = ''ana@example.com'', u_role = MANAGER,
                              u_unitId = None, u_managerId = None, u_active = None, u_authUid = None\<rparr>
           (Inr ''u1''),
         GetUserByEmailAddress ''ana@example.com'' None])"
    by (simp add: auth_defs handler_defs)
  have failed: "authStatus (fst (onAuthStateChanged_handler (ex_auth_env None (Inl (JsError ''denied'')) (Inr ()))
                         (Some ex_firebase_user) (ex_loading, []))) = Unauthenticated
   \<and> signOut_calls (snd (onAuthStateChanged_handler (ex_auth_env None (Inl (JsError ''denied'')) (Inr ()))
                         (Some ex_firebase_user) (ex_loading, []))) = [Inr ()]"
    by (simp add: auth_defs handler_defs)
  from run 1 ok failed show ?thesis by simp
qed

text \<open>
  C7. Whatever the hooks answer, every checklist that \<^verbatim>\<open>submitChecklist\<close> hands to the store
  carries the results it was given, and its \<^verbatim>\<open>hasNonConformities\<close> flag is true exactly
  when one of these results has the status \<^verbatim>\<open>NON_CONFORM\<close>. With a user signed in there is
  exactly one such checklist per submission; for an empty results sequence the flag is
  false.
\<close>
theorem derived_conformity_flag:
  "\<exists>evs. snd (submitChecklist A users units templates cd (s, h)) = h @ evs
     \<and> (\<forall>c \<in> set (submitted_checklists evs).
           results c = results cd
         \<and> hasNonConformities c = (\<exists>r \<in> set (results c). status r = Some NON_CONFORM))
     \<and> (currentUser s \<noteq> None \<longrightarrow> length (submitted_checklists evs) = 1)
     \<and> (results cd = [] \<longrightarrow> (\<forall>c \<in> set (submitted_checklists evs). \<not> hasNonConformities c))"
proof -
  have flag: "has_non_conformities cd = (\<exists>r \<in> set (results cd). status r = Some NON_CONFORM)"
    by (simp add: has_non_conformities_def list_ex_iff)
  have new: "\<And>now. results (new_completed_checklist cd now (has_non_conformities cd)) = results cd
       \<and> hasNonConformities (new_completed_checklist cd now (has_non_conformities cd))
           = (\<exists>r \<in> set (results cd). status r = Some NON_CONFORM)"
    using flag by (simp add: new_completed_checklist_def)
  show ?thesis
  proof (cases rule: submitChecklist_cases [of s A users units templates cd h])
    case no_user
    then show ?thesis by simp
  next
    case (write_failed cu now err)
    then show ?thesis using new [of now] by simp
  next
    case (conform cu now cid)
    then show ?thesis using new [of now] by simp
  next
    case (fanned_out cu now cid h')
    let ?pre = "[DateNow now, SubmitChecklistToFirestore (new_completed_checklist cd now (has_non_conformities cd)) (Inr cid)]"
    from fanout_recipients [OF fanned_out(3)] obtain fe where fe: "h' = (h @ ?pre) @ fe" by blast
    from fanout_submitted [of A users units templates cd cid "h @ ?pre"] fanned_out(3) fe
    have "submitted_checklists fe = []" by simp
    with fanned_out fe new [of now] show ?thesis
      by (intro exI [of _ "?pre @ fe"]) simp
  next
    case (fanout_failed cu now cid err h')
    let ?pre = "[DateNow now, SubmitChecklistToFirestore (new_completed_checklist cd now (has_non_conformities cd)) (Inr cid)]"
    from fanout_recipients [OF fanout_failed(3)] obtain fe where fe: "h' = (h @ ?pre) @ fe" by blast
    from fanout_submitted [of A users units templates cd cid "h @ ?pre"] fanout_failed(3) fe
    have "submitted_checklists fe = []" by simp
    with fanout_failed fe new [of now] show ?thesis
      by (intro exI [of _ "?pre @ fe @ [ConsoleErr [CStr ''Error submitting checklist:'', CErr err]]"]) simp
  qed
qed

theorem derived_conformity_flag_witness:
  "currentUser ex_state \<noteq> None
   \<and> map hasNonConformities
       (submitted_checklists
          (snd (submitChecklist (ex_env []) ex_users [ex_unit] [] ex_checklist (ex_state, []))))
     = [True]
   \<and> map hasNonConformities
       (submitted_checklists
          (snd (submitChecklist (ex_env []) ex_users [ex_unit] []
                  (ex_checklist\<lparr>results := []\<rparr>) (ex_state, []))))
     = [False]"
proof -
  from derived_conformity_flag [of "ex_env []" ex_users "[ex_unit]" "[]" ex_checklist ex_state "[]"]
  obtain evs where
    evs: "snd (submitChecklist (ex_env []) ex_users [ex_unit] [] ex_checklist (ex_state, [])) = [] @ evs"
    and one: "currentUser ex_state \<noteq> None \<longrightarrow> length (submitted_checklists evs) = 1"
    and flag: "\<forall>c \<in> set (submitted_checklists evs).
                 hasNonConformities c = (\<exists>r \<in> set (results c). status r = Some NON_CONFORM)
               \<and> results c = results ex_checklist"
    by blast
  have cu: "currentUser ex_state \<noteq> None"
    by (simp add: ex_defs)
  with one obtain c where c: "submitted_checklists evs = [c]"
    by (cases "submitted_checklists evs") auto
  with flag have "hasNonConformities c"
    by (simp add: ex_defs)
  with c evs have first: "map hasNonConformities
       (submitted_checklists
          (snd (submitChecklist (ex_env []) ex_users [ex_unit] [] ex_checklist (ex_state, []))))
     = [True]"
    by simp
  have second: "map hasNonConformities
       (submitted_checklists
          (snd (submitChecklist (ex_env []) ex_users [ex_unit] []
                  (ex_checklist\<lparr>results := []\<rparr>) (ex_state, []))))
     = [False]"
    by (simp add: ex_defs run_defs)
  from cu first second show ?thesis by simp
qed

text \<open>
  The one key that the loop of the adapter cannot copy: an own key \<^verbatim>\<open>__proto__\<close> with a
  defined value is in no payload, while the other keys are sent as usual.
\<close>

lemma own_proto_key_is_not_sent:
  "FirestoreService_update ex_sdk ''users'' ''u7'' [(''__proto__'', JStr ''x''), (''name'', JStr ''Z'')] [] =
     (Inr (), [TimestampNow 0,
               UpdateDoc ''users'' ''u7'' [(''name'', JStr ''Z''), (''updatedAt'', JTimestamp 0)] (Inr ())])
   \<and> FirestoreService_add ex_sdk ''users'' [(''__proto__'', JStr ''x''), (''name'', JStr ''Z'')] [] =
     (Inr ''d1'', [TimestampNow 0, TimestampNow 1,
                  AddDoc ''users''
                    [(''name'', JStr ''Z''), (''createdAt'', JTimestamp 0), (''updatedAt'', JTimestamp 1)]
                    (Inr ''d1'')])"
  by (simp add: sdk_defs svc_defs)

text \<open>
  C8. For every object (with each key once, and without an own key \<^verbatim>\<open>__proto__\<close>, which no
  declared entity type has and no stored document can have), \<^verbatim>\<open>add\<close> hands to \<^verbatim>\<open>addDoc\<close>,
  and \<^verbatim>\<open>update\<close> to \<^verbatim>\<open>updateDoc\<close>, exactly one payload. Its keys are the keys of the input whose value is
  not \<^verbatim>\<open>undefined\<close>, together with \<^verbatim>\<open>createdAt\<close> and \<^verbatim>\<open>updatedAt\<close> for \<^verbatim>\<open>add\<close> and with
  \<^verbatim>\<open>updatedAt\<close> for \<^verbatim>\<open>update\<close>. The stamped keys hold the clock readings; every other key
  holds the input's value, \<^verbatim>\<open>null\<close> and the empty string included; a key whose value is
  \<^verbatim>\<open>undefined\<close> is not in the payload.
\<close>

theorem stripped_undefined_write:
  assumes "wf_obj inp" and "''__proto__'' \<notin> fst ` set inp"
  shows "(\<exists>t1 t2 payload r.
            FirestoreService_add E coll inp h =
              (r, h @ [TimestampNow t1, TimestampNow t2, AddDoc coll payload r])
          \<and> wf_obj payload
          \<and> fst ` set payload =
              {k \<in> fst ` set inp. obj_get inp k \<noteq> JUndefined} \<union> {''createdAt'', ''updatedAt''}
          \<and> (\<forall>k. k \<noteq> ''createdAt'' \<and> k \<noteq> ''updatedAt'' \<longrightarrow>
                 map_of payload k = (if obj_get inp k = JUndefined then None else map_of inp k))
          \<and> map_of payload ''createdAt'' = Some (JTimestamp t1)
          \<and> map_of payload ''updatedAt'' = Some (JTimestamp t2))
       \<and> (\<exists>t payload r.
            FirestoreService_update E coll docId inp h =
              (r, h @ [TimestampNow t, UpdateDoc coll docId payload r])
          \<and> wf_obj payload
          \<and> fst ` set payload =
              {k \<in> fst ` set inp. obj_get inp k \<noteq> JUndefined} \<union> {''updatedAt''}
          \<and> (\<forall>k. k \<noteq> ''updatedAt'' \<longrightarrow>
                 map_of payload k = (if obj_get inp k = JUndefined then None else map_of inp k))
          \<and> map_of payload ''updatedAt'' = Some (JTimestamp t))"
proof (rule conjI)
  let ?t1 = "timestamp_now E h"
  let ?t2 = "timestamp_now E (h @ [TimestampNow ?t1])"
  let ?p = "AList.update ''updatedAt'' (JTimestamp ?t2)
              (AList.update ''createdAt'' (JTimestamp ?t1) (strip_undefined inp))"
  let ?r = "addDoc E (h @ [TimestampNow ?t1, TimestampNow ?t2]) coll ?p"
  have run: "FirestoreService_add E coll inp h =
               (?r, h @ [TimestampNow ?t1, TimestampNow ?t2, AddDoc coll ?p ?r])"
    by (simp add: FirestoreService_add_def Let_def)
  have np: "map_of inp ''__proto__'' = None"
    using assms(2) by (simp add: map_of_eq_None_iff)
  have ks: "fst ` set (strip_undefined inp) = {k \<in> fst ` set inp. obj_get inp k \<noteq> JUndefined}"
    unfolding keys_strip_undefined [OF assms(1)] using assms(2) by blast
  have wf: "wf_obj ?p"
    using wf_strip_undefined [of inp] by (simp add: wf_obj_def distinct_update)
  have keys: "fst ` set ?p =
      {k \<in> fst ` set inp. obj_get inp k \<noteq> JUndefined} \<union> {''createdAt'', ''updatedAt''}"
    using ks by (auto simp: dom_update)
  have vals: "\<forall>k. k \<noteq> ''createdAt'' \<and> k \<noteq> ''updatedAt'' \<longrightarrow>
                 map_of ?p k = (if obj_get inp k = JUndefined then None else map_of inp k)"
    using np by (simp add: add_payload_map [OF assms(1)])
  have c: "map_of ?p ''createdAt'' = Some (JTimestamp ?t1)"
    by (simp add: add_payload_map [OF assms(1)])
  have u: "map_of ?p ''updatedAt'' = Some (JTimestamp ?t2)"
    by (simp add: add_payload_map [OF assms(1)])
  from run wf keys vals c u
  show "\<exists>t1 t2 payload r.
            FirestoreService_add E coll inp h =
              (r, h @ [TimestampNow t1, TimestampNow t2, AddDoc coll payload r])
          \<and> wf_obj payload
          \<and> fst ` set payload =
              {k \<in> fst ` set inp. obj_get inp k \<noteq> JUndefined} \<union> {''createdAt'', ''updatedAt''}
          \<and> (\<forall>k. k \<noteq> ''createdAt'' \<and> k \<noteq> ''updatedAt'' \<longrightarrow>
                 map_of payload k = (if obj_get inp k = JUndefined then None else map_of inp k))
          \<and> map_of payload ''createdAt'' = Some (JTimestamp t1)
          \<and> map_of payload ''updatedAt'' = Some (JTimestamp t2)"
    by blast
next
  let ?t = "timestamp_now E h"
  let ?p = "AList.update ''updatedAt'' (JTimestamp ?t) (strip_undefined inp)"
  let ?r = "updateDoc E (h @ [TimestampNow ?t]) coll docId ?p"
  have run: "FirestoreService_update E coll docId inp h =
               (?r, h @ [TimestampNow ?t, UpdateDoc coll docId ?p ?r])"
    by (simp add: FirestoreService_update_def Let_def)
  have np: "map_of inp ''__proto__'' = None"
    using assms(2) by (simp add: map_of_eq_None_iff)
  have ks: "fst ` set (strip_undefined inp) = {k \<in> fst ` set inp. obj_get inp k \<noteq> JUndefined}"
    unfolding keys_strip_undefined [OF assms(1)] using assms(2) by blast
  have wf: "wf_obj ?p"
    using wf_strip_undefined [of inp] by (simp add: wf_obj_def distinct_update)
  have keys: "fst ` set ?p = {k \<in> fst ` set inp. obj_get inp k \<noteq> JUndefined} \<union> {''updatedAt''}"
    using ks by (auto simp: dom_update)
  have vals: "\<forall>k. k \<noteq> ''updatedAt'' \<longrightarrow>
                 map_of ?p k = (if obj_get inp k = JUndefined then None else map_of inp k)"
    using np by (simp add: update_payload_map [OF assms(1)])
  have u: "map_of ?p ''updatedAt'' = Some (JTimestamp ?t)"
    by (simp add: update_payload_map [OF assms(1)])
  from run wf keys vals u
  show "\<exists>t payload r.
            FirestoreService_update E coll docId inp h =
              (r, h @ [TimestampNow t, UpdateDoc coll docId payload r])
          \<and> wf_obj payload
          \<and> fst ` set payload =
              {k \<in> fst ` set inp. obj_get inp k \<noteq> JUndefined} \<union> {''updatedAt''}
          \<and> (\<forall>k. k \<noteq> ''updatedAt'' \<longrightarrow>
                 map_of payload k = (if obj_get inp k = JUndefined then None else map_of inp k))
          \<and> map_of payload ''updatedAt'' = Some (JTimestamp t)"
    by blast
qed

theorem stripped_undefined_write_witness:
  "wf_obj ex_patch \<and> ''__proto__'' \<notin> fst ` set ex_patch
   \<and> FirestoreService_update ex_sdk ''users'' ''u7'' ex_patch [] =
       (Inr (), [TimestampNow 0,
                 UpdateDoc ''users'' ''u7''
                   [(''name'', JStr []), (''unitId'', JNull), (''updatedAt'', JTimestamp 0)] (Inr ())])
   \<and> FirestoreService_add ex_sdk ''users'' ex_patch [] =
       (Inr ''d1'', [TimestampNow 0, TimestampNow 1,
                 AddDoc ''users''
                   [(''name'', JStr []), (''unitId'', JNull), (''createdAt'', JTimestamp 0),
                    (''updatedAt'', JTimestamp 1)] (Inr ''d1'')])"
proof -
  have wf: "wf_obj ex_patch"
    by (simp add: wf_obj_def ex_patch_def)
  have np: "''__proto__'' \<notin> fst ` set ex_patch"
    by (simp add: ex_patch_def)
  from stripped_undefined_write [OF wf np, of ex_sdk "''users''" "[]" "''u7''"]
  have "\<exists>t payload r. FirestoreService_update ex_sdk ''users'' ''u7'' ex_patch [] =
       (r, [] @ [TimestampNow t, UpdateDoc ''users'' ''u7'' payload r])
     \<and> map_of payload ''updatedAt'' = Some (JTimestamp t)"
    by (elim conjE exE) (intro exI conjI, assumption+)
  then obtain t payload r where
    run: "FirestoreService_update ex_sdk ''users'' ''u7'' ex_patch [] =
       (r, [] @ [TimestampNow t, UpdateDoc ''users'' ''u7'' payload r])"
    by (elim conjE exE)
  have upd: "FirestoreService_update ex_sdk ''users'' ''u7'' ex_patch [] =
       (Inr (), [TimestampNow 0,
                 UpdateDoc ''users'' ''u7''
                   [(''name'', JStr []), (''unitId'', JNull), (''updatedAt'', JTimestamp 0)] (Inr ())])"
    by (simp add: sdk_defs svc_defs)
  have ad: "FirestoreService_add ex_sdk ''users'' ex_patch [] =
       (Inr ''d1'', [TimestampNow 0, TimestampNow 1,
                 AddDoc ''users''
                   [(''name'', JStr []), (''unitId'', JNull), (''createdAt'', JTimestamp 0),
                    (''updatedAt'', JTimestamp 1)] (Inr ''d1'')])"
    by (simp add: sdk_defs svc_defs)
  from run wf np upd ad show ?thesis by simp
qed

text \<open>
  C9. The code at a cache that has just subscribed, when the channel reports the error
  \<open>permission-denied\<close>: the only effect is a line on the console. The cache still has no
  error and is still loading; the same holds for the notifications feed.
\<close>

theorem subscription_error_leaves_consumer_unaware:
  "useFirestoreCollection_listener (SnapshotError (JsError ''permission-denied'')) (cache_init, []) =
     (cache_init,
      [ConsoleError [CStr ''Firestore onSnapshot error:'', CErr (JsError ''permission-denied'')]])
   \<and> error (fst (useFirestoreCollection_listener (SnapshotError (JsError ''permission-denied''))
                    (cache_init, []))) = None
   \<and> loading (fst (useFirestoreCollection_listener (SnapshotError (JsError ''permission-denied''))
                    (cache_init, []))) = True
   \<and> useNotifications_listener (SnapshotError (JsError ''permission-denied'')) (ex_feed, []) =
     (ex_feed,
      [ConsoleError [CStr ''Firestore onSnapshot error:'', CErr (JsError ''permission-denied'')]])"
  by (simp add: useFirestoreCollection_listener_def useNotifications_listener_def
        FirestoreService_onSnapshot_listener_def cache_init_def)

text \<open>
  C10. For every user object (with each key once) whose \<^verbatim>\<open>password\<close> is truthy, the first
  call of \<^verbatim>\<open>createUser\<close> is the request to the \<^verbatim>\<open>accounts:signUp\<close> endpoint of the Identity
  Toolkit, with the email and the password. At most one
  document is written afterwards, and exactly one when \<^verbatim>\<open>createUser\<close> returns an id. It
  goes to the collection \<^verbatim>\<open>users\<close>, has no key \<^verbatim>\<open>password\<close>, has \<^verbatim>\<open>authUid\<close> set to the
  \<^verbatim>\<open>localId\<close> of the provider's answer, and apart from \<^verbatim>\<open>authUid\<close> and the two stamps it
  holds the input's keys other than \<^verbatim>\<open>password\<close> with their values (those with the value
  \<^verbatim>\<open>undefined\<close> left out, as for every write, and an own key \<^verbatim>\<open>__proto__\<close>, which the
  adapter's assignment never creates). Two runs on inputs that differ only in the
  value of the password, in any two environments, write documents that agree on every key
  other than \<^verbatim>\<open>authUid\<close> and the stamps.
\<close>

theorem createUser_never_stores_password:
  assumes "wf_obj userData" and "truthy (obj_get userData ''password'')"
  shows "(\<exists>res evs.
       snd (snd (createUser E userData (c, h))) =
         h @ Fetch (''https://identitytoolkit.googleapis.com/v1/accounts:signUp?key='' @ firebaseApiKey E)
               [(''email'', obj_get userData ''email''), (''password'', obj_get userData ''password''),
                (''returnSecureToken'', JBool True)] res # evs
     \<and> length (outgoing_payloads evs) \<le> 1
     \<and> (\<forall>docId. fst (createUser E userData (c, h)) = Inr docId \<longrightarrow> length (outgoing_payloads evs) = 1)
     \<and> (\<forall>coll p. (coll, p) \<in> set (outgoing_payloads evs) \<longrightarrow>
            coll = ''users''
          \<and> map_of p ''password'' = None
          \<and> (\<exists>resp su. res = Inr resp \<and> res_ok resp \<and> res_json resp = Inr su
                \<and> map_of p ''authUid'' = Some (JStr (localId su)))
          \<and> (\<forall>k. k \<noteq> ''authUid'' \<and> k \<noteq> ''createdAt'' \<and> k \<noteq> ''updatedAt'' \<longrightarrow>
                map_of p k = (if k = ''password'' \<or> k = ''__proto__'' \<or> obj_get userData k = JUndefined then None
                              else map_of userData k))))
   \<and> (\<forall>pw' E' c' h' coll coll' p p'.
         truthy pw'
       \<and> (coll, p) \<in> set (outgoing_payloads
                            (drop (length h) (snd (snd (createUser E userData (c, h))))))
       \<and> (coll', p') \<in> set (outgoing_payloads
                            (drop (length h')
                               (snd (snd (createUser E' (AList.update ''password'' pw' userData) (c', h'))))))
       \<longrightarrow> (\<forall>k. k \<noteq> ''authUid'' \<and> k \<noteq> ''createdAt'' \<and> k \<noteq> ''updatedAt'' \<longrightarrow>
               map_of p k = map_of p' k))"
proof (rule conjI)
  show "\<exists>res evs.
       snd (snd (createUser E userData (c, h))) =
         h @ Fetch (''https://identitytoolkit.googleapis.com/v1/accounts:signUp?key='' @ firebaseApiKey E)
               [(''email'', obj_get userData ''email''), (''password'', obj_get userData ''password''),
                (''returnSecureToken'', JBool True)] res # evs
     \<and> length (outgoing_payloads evs) \<le> 1
     \<and> (\<forall>docId. fst (createUser E userData (c, h)) = Inr docId \<longrightarrow> length (outgoing_payloads evs) = 1)
     \<and> (\<forall>coll p. (coll, p) \<in> set (outgoing_payloads evs) \<longrightarrow>
            coll = ''users''
          \<and> map_of p ''password'' = None
          \<and> (\<exists>resp su. res = Inr resp \<and> res_ok resp \<and> res_json resp = Inr su
                \<and> map_of p ''authUid'' = Some (JStr (localId su)))
          \<and> (\<forall>k. k \<noteq> ''authUid'' \<and> k \<noteq> ''createdAt'' \<and> k \<noteq> ''updatedAt'' \<longrightarrow>
                map_of p k = (if k = ''password'' \<or> k = ''__proto__'' \<or> obj_get userData k = JUndefined then None
                              else map_of userData k)))"
    using createUser_payloads [OF assms, of E c h] unfolding signUpUrl_def .
next
  show "\<forall>pw' E' c' h' coll coll' p p'.
         truthy pw'
       \<and> (coll, p) \<in> set (outgoing_payloads
                            (drop (length h) (snd (snd (createUser E userData (c, h))))))
       \<and> (coll', p') \<in> set (outgoing_payloads
                            (drop (length h')
                               (snd (snd (createUser E' (AList.update ''password'' pw' userData) (c', h'))))))
       \<longrightarrow> (\<forall>k. k \<noteq> ''authUid'' \<and> k \<noteq> ''createdAt'' \<and> k \<noteq> ''updatedAt'' \<longrightarrow>
               map_of p k = map_of p' k)"
  proof (intro allI impI, elim conjE)
    fix pw' E' c' h' coll coll' p p' k
    let ?ud' = "AList.update ''password'' pw' userData"
    assume t: "truthy pw'"
      and p: "(coll, p) \<in> set (outgoing_payloads
                            (drop (length h) (snd (snd (createUser E userData (c, h))))))"
      and p': "(coll', p') \<in> set (outgoing_payloads
                            (drop (length h') (snd (snd (createUser E' ?ud' (c', h'))))))"
      and k: "k \<noteq> ''authUid''" "k \<noteq> ''createdAt''" "k \<noteq> ''updatedAt''"
    have wf': "wf_obj ?ud'"
      using assms(1) by (simp add: wf_obj_def distinct_update)
    have t': "truthy (obj_get ?ud' ''password'')"
      using t by (simp add: obj_get_def update_conv')
    have a: "map_of p k = (if k = ''password'' \<or> k = ''__proto__'' \<or> obj_get userData k = JUndefined then None
                          else map_of userData k)"
      using createUser_new_payloads [OF assms p] k by simp
    have b: "map_of p' k = (if k = ''password'' \<or> k = ''__proto__'' \<or> obj_get ?ud' k = JUndefined then None
                          else map_of ?ud' k)"
      using createUser_new_payloads [OF wf' t' p'] k by simp
    show "map_of p k = map_of p' k"
      unfolding a b by (simp add: obj_get_def update_conv')
  qed
qed

theorem createUser_never_stores_password_witness:
  "wf_obj ex_new_user \<and> truthy (obj_get ex_new_user ''password'')
   \<and> fst (createUser ex_sdk ex_new_user (cache_init, [])) = Inr ''d1''
   \<and> outgoing_payloads (snd (snd (createUser ex_sdk ex_new_user (cache_init, [])))) =
       [(''users'',
         [(''name'', JStr ''Bia''), (''email'', JStr ''bia@example.com''), (''role'', JStr ''Gestor''),
          (''authUid'', JStr ''uid-1''), (''createdAt'', JTimestamp 2), (''updatedAt'', JTimestamp 3)])]"
proof -
  have wf: "wf_obj ex_new_user"
    by (simp add: wf_obj_def ex_new_user_def)
  have t: "truthy (obj_get ex_new_user ''password'')"
    by (simp add: obj_get_def ex_new_user_def)
  from createUser_never_stores_password [OF wf t, of ex_sdk cache_init "[]"]
  have "\<exists>res evs. snd (snd (createUser ex_sdk ex_new_user (cache_init, []))) =
         [] @ Fetch (''https://identitytoolkit.googleapis.com/v1/accounts:signUp?key='' @ firebaseApiKey ex_sdk)
               [(''email'', obj_get ex_new_user ''email''), (''password'', obj_get ex_new_user ''password''),
                (''returnSecureToken'', JBool True)] res # evs
       \<and> length (outgoing_payloads evs) \<le> 1"
    by (elim conjE exE) (intro exI conjI, assumption+)
  then obtain res evs where
    run: "snd (snd (createUser ex_sdk ex_new_user (cache_init, []))) =
         [] @ Fetch (''https://identitytoolkit.googleapis.com/v1/accounts:signUp?key='' @ firebaseApiKey ex_sdk)
               [(''email'', obj_get ex_new_user ''email''), (''password'', obj_get ex_new_user ''password''),
                (''returnSecureToken'', JBool True)] res # evs"
    by (elim conjE exE)
  have eval: "fst (createUser ex_sdk ex_new_user (cache_init, [])) = Inr ''d1''
   \<and> outgoing_payloads (snd (snd (createUser ex_sdk ex_new_user (cache_init, [])))) =
       [(''users'',
         [(''name'', JStr ''Bia''), (''email'', JStr ''bia@example.com''), (''role'', JStr ''Gestor''),
          (''authUid'', JStr ''uid-1''), (''createdAt'', JTimestamp 2), (''updatedAt'', JTimestamp 3)])]"
    by (simp add: createUser_def createUserWithPassword_def add_def svc_defs sdk_defs obj_get_def
          cache_init_def)
  from run wf t eval show ?thesis by simp
qed

end
